theory Spec2Isabelle
  imports Complex_Main "HOL-Library.Monad_Syntax"
begin

section \<open>Numbers\<close>

text \<open>
  A TypeScript \<open>number\<close> is modelled as a \<open>real\<close> where a function only compares it or
  does exact arithmetic on small values, and a value that may be \<open>undefined\<close> or \<open>null\<close>
  is an \<open>option\<close>; \<open>parseInt\<close> returns \<open>None\<close> where it yields NaN.

  The solar altitude is modelled on doubles. A \<open>number\<close> is a finite value, one of the
  two infinities, or NaN. The result of an arithmetic operation is the exact result
  rounded to a double; the model does not say which double, only that it is within half
  a unit in the last place, so an operation returns the set of values it may have. An
  exact result at or beyond \<open>2^1024 - 2^970\<close> overflows to an infinity. The two zeros are
  not told apart.
\<close>

datatype number = Finite real | Infinity | NegInfinity | NaN

definition MAX_VALUE :: real where
  "MAX_VALUE = 2 ^ 1024 - 2 ^ 971"

definition overflowThreshold :: real where
  "overflowThreshold = 2 ^ 1024 - 2 ^ 970"

definition rounded :: "real \<Rightarrow> number set" where
  "rounded x =
     (if x \<ge> overflowThreshold then {Infinity}
      else if x \<le> - overflowThreshold then {NegInfinity}
      else {Finite v | v. \<bar>v\<bar> \<le> MAX_VALUE \<and> \<bar>v - x\<bar> \<le> \<bar>x\<bar> / 2 ^ 53 + 1 / 2 ^ 1075})"

definition signedInfinity :: "bool \<Rightarrow> number" where
  "signedInfinity positive = (if positive then Infinity else NegInfinity)"

fun isPositive :: "number \<Rightarrow> bool" where
  "isPositive (Finite x) = (x > 0)"
| "isPositive Infinity = True"
| "isPositive NegInfinity = False"
| "isPositive NaN = False"

fun fneg :: "number \<Rightarrow> number" where
  "fneg (Finite x) = Finite (- x)"
| "fneg Infinity = NegInfinity"
| "fneg NegInfinity = Infinity"
| "fneg NaN = NaN"

text \<open>\<open>a * b\<close>: NaN is passed on, and an infinity times zero is NaN.\<close>

definition fmul :: "number \<Rightarrow> number \<Rightarrow> number set" where
  "fmul a b =
     (if a = NaN \<or> b = NaN then {NaN}
      else case (a, b) of
        (Finite x, Finite y) \<Rightarrow> rounded (x * y)
      | _ \<Rightarrow> if a = Finite 0 \<or> b = Finite 0 then {NaN}
             else {signedInfinity (isPositive a = isPositive b)})"

text \<open>\<open>a + b\<close>: NaN is passed on, and the sum of the two opposite infinities is NaN.\<close>

definition fadd :: "number \<Rightarrow> number \<Rightarrow> number set" where
  "fadd a b =
     (if a = NaN \<or> b = NaN then {NaN}
      else case (a, b) of
        (Finite x, Finite y) \<Rightarrow> rounded (x + y)
      | (Finite x, _) \<Rightarrow> {b}
      | (_, Finite y) \<Rightarrow> {a}
      | _ \<Rightarrow> if a = b then {a} else {NaN})"

definition fsub :: "number \<Rightarrow> number \<Rightarrow> number set" where
  "fsub a b = fadd a (fneg b)"

text \<open>
  \<open>a / b\<close>: the sign of a quotient by zero is the sign of the zero, which the model does
  not know, so both infinities are possible.
\<close>

definition fdiv :: "number \<Rightarrow> number \<Rightarrow> number set" where
  "fdiv a b =
     (if a = NaN \<or> b = NaN then {NaN}
      else case (a, b) of
        (Finite x, Finite y) \<Rightarrow>
          if y = 0 then (if x = 0 then {NaN} else {Infinity, NegInfinity})
          else rounded (x / y)
      | (Finite x, _) \<Rightarrow> {Finite 0}
      | (_, Finite y) \<Rightarrow>
          if y = 0 then {Infinity, NegInfinity}
          else {signedInfinity (isPositive a = (y > 0))}
      | _ \<Rightarrow> {NaN})"

text \<open>\<open>Math.min\<close> and \<open>Math.max\<close> are exact and give NaN when an argument is NaN.\<close>

fun Math_min :: "number \<Rightarrow> number \<Rightarrow> number" where
  "Math_min NaN b = NaN"
| "Math_min a NaN = NaN"
| "Math_min NegInfinity b = NegInfinity"
| "Math_min a NegInfinity = NegInfinity"
| "Math_min Infinity b = b"
| "Math_min a Infinity = a"
| "Math_min (Finite x) (Finite y) = Finite (min x y)"

fun Math_max :: "number \<Rightarrow> number \<Rightarrow> number" where
  "Math_max NaN b = NaN"
| "Math_max a NaN = NaN"
| "Math_max Infinity b = Infinity"
| "Math_max a Infinity = Infinity"
| "Math_max NegInfinity b = b"
| "Math_max a NegInfinity = a"
| "Math_max (Finite x) (Finite y) = Finite (max x y)"

text \<open>
  \<open>Math.sin\<close>, \<open>Math.cos\<close> and \<open>Math.asin\<close> return an approximation the language leaves to
  the implementation: here any finite value within \<open>2^-50\<close> of the exact one. The sine and
  cosine of an infinity or of NaN are NaN; the arc sine of NaN, of an infinity and of any
  value outside [-1, 1] is NaN.
\<close>

definition approximation :: "real \<Rightarrow> number set" where
  "approximation x = {Finite v | v. \<bar>v - x\<bar> \<le> 1 / 2 ^ 50}"

definition Math_sin :: "number \<Rightarrow> number set" where
  "Math_sin a = (case a of Finite x \<Rightarrow> approximation (sin x) | _ \<Rightarrow> {NaN})"

definition Math_cos :: "number \<Rightarrow> number set" where
  "Math_cos a = (case a of Finite x \<Rightarrow> approximation (cos x) | _ \<Rightarrow> {NaN})"

definition Math_asin :: "number \<Rightarrow> number set" where
  "Math_asin a =
     (case a of
        Finite x \<Rightarrow> if - 1 \<le> x \<and> x \<le> 1 then approximation (arcsin x) else {NaN}
      | _ \<Rightarrow> {NaN})"

text \<open>\<open>Math.PI\<close> is the double nearest to \<open>\<pi>\<close>.\<close>

definition Math_PI :: number where
  "Math_PI = Finite (884279719003555 / 2 ^ 48)"

section \<open>lib/solar.ts\<close>

definition TO_RAD :: "number set" where
  "TO_RAD = fdiv Math_PI (Finite 180)"

definition TO_DEG :: "number set" where
  "TO_DEG = fdiv (Finite 180) Math_PI"

text \<open>
  The local constants of \<open>calcSolarAltitude\<close>, each as a function of what it is computed
  from. The two module constants are computed once and handed on.
\<close>

definition declination :: "number \<Rightarrow> number \<Rightarrow> number set" where
  "declination toRad dayOfYear = do {
     k \<leftarrow> fdiv (Finite 360) (Finite 365);
     a \<leftarrow> fmul toRad k;
     d \<leftarrow> fsub dayOfYear (Finite 81);
     x \<leftarrow> fmul a d;
     s \<leftarrow> Math_sin x;
     c \<leftarrow> rounded 23.45;
     fmul c s
   }"

definition hourAngle :: "number \<Rightarrow> number set" where
  "hourAngle hourFloat = do {
     d \<leftarrow> fsub hourFloat (Finite 12);
     fmul d (Finite 15)
   }"

definition sinAlt :: "number \<Rightarrow> number \<Rightarrow> number \<Rightarrow> number \<Rightarrow> number set" where
  "sinAlt toRad latitude decl angle = do {
     x1 \<leftarrow> fmul toRad latitude;
     s1 \<leftarrow> Math_sin x1;
     x2 \<leftarrow> fmul toRad decl;
     s2 \<leftarrow> Math_sin x2;
     p1 \<leftarrow> fmul s1 s2;
     x3 \<leftarrow> fmul toRad latitude;
     c1 \<leftarrow> Math_cos x3;
     x4 \<leftarrow> fmul toRad decl;
     c2 \<leftarrow> Math_cos x4;
     p2 \<leftarrow> fmul c1 c2;
     x5 \<leftarrow> fmul toRad angle;
     c3 \<leftarrow> Math_cos x5;
     p3 \<leftarrow> fmul p2 c3;
     fadd p1 p3
   }"

text \<open>The expression the source hands to \<open>Math.asin\<close>: \<open>Math.max(-1, Math.min(1, sinAlt))\<close>.\<close>

definition asinArgument :: "number \<Rightarrow> number" where
  "asinArgument s = Math_max (Finite (- 1)) (Math_min (Finite 1) s)"

definition calcSolarAltitude :: "number \<Rightarrow> number \<Rightarrow> number \<Rightarrow> number set" where
  "calcSolarAltitude latitude dayOfYear hourFloat = do {
     toRad \<leftarrow> TO_RAD;
     toDeg \<leftarrow> TO_DEG;
     decl \<leftarrow> declination toRad dayOfYear;
     angle \<leftarrow> hourAngle hourFloat;
     s \<leftarrow> sinAlt toRad latitude decl angle;
     a \<leftarrow> Math_asin (asinArgument s);
     fmul toDeg a
   }"

definition altitudeToSkyPhase :: "real \<Rightarrow> real" where
  "altitudeToSkyPhase altitude =
     (if altitude \<le> - 12 then 0
      else if altitude \<ge> 30 then 1
      else (altitude + 12) / 42)"

definition calcSunHorizontalPosition :: "real \<Rightarrow> real" where
  "calcSunHorizontalPosition hourFloat = max 0 (min 1 ((hourFloat - 4) / 16))"

definition calcSunVerticalPosition :: "real \<Rightarrow> real" where
  "calcSunVerticalPosition altitude =
     (if altitude \<le> 0 then 10 else 10 + (min altitude 70 / 70) * 80)"

section \<open>types/index.ts\<close>

datatype SkyCondition = clear | cloudy | overcast | rain | snow | thunder | fog

definition weatherCodeToSkyCondition :: "real option \<Rightarrow> SkyCondition" where
  "weatherCodeToSkyCondition code =
     (case code of
        None \<Rightarrow> clear
      | Some c \<Rightarrow>
          if c \<le> 1 then clear
          else if c = 2 then cloudy
          else if c = 3 then overcast
          else if c \<ge> 45 \<and> c \<le> 48 then fog
          else if c \<ge> 51 \<and> c \<le> 67 then rain
          else if c \<ge> 71 \<and> c \<le> 77 then snow
          else if c \<ge> 80 \<and> c \<le> 82 then rain
          else if c \<ge> 95 then thunder
          else clear)"

section \<open>JavaScript library functions used by the sky background\<close>

text \<open>\<open>a ?? b\<close>: the left operand unless it is \<open>null\<close> or \<open>undefined\<close>.\<close>

definition nullish :: "'a option \<Rightarrow> 'a option \<Rightarrow> 'a option" where
  "nullish a b = (case a of Some v \<Rightarrow> Some v | None \<Rightarrow> b)"

text \<open>\<open>Math.round\<close>: the nearest integer, a tie going up.\<close>

definition Math_round :: "real \<Rightarrow> int" where
  "Math_round x = \<lfloor>x + 1 / 2\<rfloor>"

text \<open>\<open>s.replace("#", "")\<close> removes the first \<open>#\<close> of the string only.\<close>

fun replaceHash :: "string \<Rightarrow> string" where
  "replaceHash [] = []"
| "replaceHash (c # cs) = (if c = CHR ''#'' then cs else c # replaceHash cs)"

text \<open>\<open>s.slice(a, b)\<close> for \<open>0 \<le> a \<le> b\<close>; indices past the end are cut off.\<close>

definition slice :: "nat \<Rightarrow> nat \<Rightarrow> string \<Rightarrow> string" where
  "slice a b s = take (b - a) (drop a s)"

definition hexDigitValue :: "char \<Rightarrow> nat option" where
  "hexDigitValue = map_of
     [(CHR ''0'', 0), (CHR ''1'', 1), (CHR ''2'', 2), (CHR ''3'', 3), (CHR ''4'', 4),
      (CHR ''5'', 5), (CHR ''6'', 6), (CHR ''7'', 7), (CHR ''8'', 8), (CHR ''9'', 9),
      (CHR ''a'', 10), (CHR ''b'', 11), (CHR ''c'', 12), (CHR ''d'', 13), (CHR ''e'', 14),
      (CHR ''f'', 15), (CHR ''A'', 10), (CHR ''B'', 11), (CHR ''C'', 12), (CHR ''D'', 13),
      (CHR ''E'', 14), (CHR ''F'', 15)]"

definition isWhiteSpace :: "char \<Rightarrow> bool" where
  "isWhiteSpace c = (c \<in> set [CHR '' '', CHR 0x09, CHR 0x0A, CHR 0x0B, CHR 0x0C, CHR 0x0D])"

definition hexDigitsValue :: "string \<Rightarrow> nat" where
  "hexDigitsValue ds = foldl (\<lambda>n c. 16 * n + (case hexDigitValue c of Some d \<Rightarrow> d | None \<Rightarrow> 0)) 0 ds"

text \<open>
  \<open>parseInt(s, 16)\<close>: leading white space is skipped, then an optional sign and an
  optional \<open>0x\<close> are read, then the longest run of hexadecimal digits; with no digit the
  result is NaN (\<open>None\<close>). White space is the ASCII one only.
\<close>

definition parseInt16 :: "string \<Rightarrow> int option" where
  "parseInt16 s =
     (let s1 = dropWhile isWhiteSpace s;
          negative = (take 1 s1 = ''-'');
          s2 = (if take 1 s1 = ''-'' \<or> take 1 s1 = ''+'' then drop 1 s1 else s1);
          s3 = (if take 2 s2 = ''0x'' \<or> take 2 s2 = ''0X'' then drop 2 s2 else s2);
          ds = takeWhile (\<lambda>c. hexDigitValue c \<noteq> None) s3
      in if ds = [] then None
         else Some (if negative then - int (hexDigitsValue ds) else int (hexDigitsValue ds)))"

definition hexDigit :: "nat \<Rightarrow> char" where
  "hexDigit d = ''0123456789abcdef'' ! d"

fun hexString :: "nat \<Rightarrow> string" where
  "hexString n = (if n < 16 then [hexDigit n] else hexString (n div 16) @ [hexDigit (n mod 16)])"

declare hexString.simps [simp del]

text \<open>\<open>v.toString(16)\<close> of an integer, and of NaN (\<open>None\<close>).\<close>

definition toString16 :: "int option \<Rightarrow> string" where
  "toString16 v =
     (case v of
        None \<Rightarrow> ''NaN''
      | Some n \<Rightarrow> if n < 0 then CHR ''-'' # hexString (nat (- n)) else hexString (nat n))"

text \<open>\<open>s.padStart(2, "0")\<close>.\<close>

definition padStart2 :: "string \<Rightarrow> string" where
  "padStart2 s = replicate (2 - length s) (CHR ''0'') @ s"

section \<open>components/SkyBackground.tsx\<close>

type_synonym Palette = "string \<times> string \<times> string \<times> string"

record PaletteEntry =
  phase :: real
  colors :: Palette

definition CONDITION_PALETTES :: "SkyCondition \<Rightarrow> PaletteEntry list" where
  "CONDITION_PALETTES condition =
     (case condition of
        clear \<Rightarrow>
          [\<lparr>phase = 0.00, colors = (''#050820'', ''#10083a'', ''#080e38'', ''#050a22'')\<rparr>,
           \<lparr>phase = 0.15, colors = (''#0a1040'', ''#15104a'', ''#1a2060'', ''#151845'')\<rparr>,
           \<lparr>phase = 0.25, colors = (''#1a1a50'', ''#302560'', ''#502e6a'', ''#703560'')\<rparr>,
           \<lparr>phase = 0.33, colors = (''#2a2055'', ''#4a3068'', ''#8a4560'', ''#d46a50'')\<rparr>,
           \<lparr>phase = 0.42, colors = (''#3a4080'', ''#5a70b0'', ''#c08850'', ''#e8a040'')\<rparr>,
           \<lparr>phase = 0.55, colors = (''#2060c0'', ''#4088e0'', ''#70a8f0'', ''#a0c8ff'')\<rparr>,
           \<lparr>phase = 1.00, colors = (''#1a6dd4'', ''#3a8ee8'', ''#6ab4f7'', ''#d4edff'')\<rparr>]
      | cloudy \<Rightarrow>
          [\<lparr>phase = 0.00, colors = (''#787e88'', ''#8a9098'', ''#858b92'', ''#808890'')\<rparr>,
           \<lparr>phase = 0.15, colors = (''#828a92'', ''#949ca5'', ''#8e969e'', ''#8a9098'')\<rparr>,
           \<lparr>phase = 0.25, colors = (''#8a929a'', ''#9aa2aa'', ''#959da5'', ''#909aa2'')\<rparr>,
           \<lparr>phase = 0.33, colors = (''#808890'', ''#909898'', ''#8a8078'', ''#b09070'')\<rparr>,
           \<lparr>phase = 0.42, colors = (''#607090'', ''#7890a8'', ''#988870'', ''#b89060'')\<rparr>,
           \<lparr>phase = 0.55, colors = (''#4070a8'', ''#5a88c0'', ''#7aa0d0'', ''#a0c0e0'')\<rparr>,
           \<lparr>phase = 1.00, colors = (''#4070a8'', ''#5a88c0'', ''#7aa0d0'', ''#a0c0e0'')\<rparr>]
      | overcast \<Rightarrow>
          [\<lparr>phase = 0.00, colors = (''#98a0a8'', ''#a8b0b8'', ''#a2aab0'', ''#9aa2aa'')\<rparr>,
           \<lparr>phase = 0.15, colors = (''#a0a8b0'', ''#b0b8c0'', ''#aab2b8'', ''#a2aab2'')\<rparr>,
           \<lparr>phase = 0.25, colors = (''#a5adb5'', ''#b5bdc5'', ''#b0b8c0'', ''#a8b0b8'')\<rparr>,
           \<lparr>phase = 0.33, colors = (''#889098'', ''#98a0a8'', ''#929aa0'', ''#8a9298'')\<rparr>,
           \<lparr>phase = 0.42, colors = (''#657585'', ''#788898'', ''#859098'', ''#9098a0'')\<rparr>,
           \<lparr>phase = 0.55, colors = (''#556878'', ''#6a7e90'', ''#7e90a0'', ''#98a8b5'')\<rparr>,
           \<lparr>phase = 1.00, colors = (''#556878'', ''#6a7e90'', ''#7e90a0'', ''#98a8b5'')\<rparr>]
      | rain \<Rightarrow>
          [\<lparr>phase = 0.00, colors = (''#080c14'', ''#101822'', ''#0c1418'', ''#0a1015'')\<rparr>,
           \<lparr>phase = 0.15, colors = (''#0e1520'', ''#18222e'', ''#152028'', ''#121a22'')\<rparr>,
           \<lparr>phase = 0.25, colors = (''#182028'', ''#252e3a'', ''#2a3440'', ''#303840'')\<rparr>,
           \<lparr>phase = 0.33, colors = (''#222e38'', ''#334048'', ''#3e484e'', ''#485050'')\<rparr>,
           \<lparr>phase = 0.42, colors = (''#2a3540'', ''#3a4550'', ''#485058'', ''#505860'')\<rparr>,
           \<lparr>phase = 0.55, colors = (''#3a4555'', ''#4d5868'', ''#5a6575'', ''#6e7888'')\<rparr>,
           \<lparr>phase = 1.00, colors = (''#3a4555'', ''#4d5868'', ''#5a6575'', ''#6e7888'')\<rparr>]
      | snow \<Rightarrow>
          [\<lparr>phase = 0.00, colors = (''#202535'', ''#2e3545'', ''#283040'', ''#252e38'')\<rparr>,
           \<lparr>phase = 0.15, colors = (''#283040'', ''#353e4a'', ''#323a48'', ''#2e3540'')\<rparr>,
           \<lparr>phase = 0.25, colors = (''#353c4a'', ''#454c58'', ''#505860'', ''#5a6268'')\<rparr>,
           \<lparr>phase = 0.33, colors = (''#454d5a'', ''#586068'', ''#656d75'', ''#758088'')\<rparr>,
           \<lparr>phase = 0.42, colors = (''#556070'', ''#687080'', ''#788088'', ''#8a9098'')\<rparr>,
           \<lparr>phase = 0.55, colors = (''#7888a0'', ''#8fa0b8'', ''#a5b5c8'', ''#c0cdd8'')\<rparr>,
           \<lparr>phase = 1.00, colors = (''#7888a0'', ''#8fa0b8'', ''#a5b5c8'', ''#c0cdd8'')\<rparr>]
      | thunder \<Rightarrow>
          [\<lparr>phase = 0.00, colors = (''#060810'', ''#0e1020'', ''#0a0c15'', ''#08080e'')\<rparr>,
           \<lparr>phase = 0.15, colors = (''#0c0e18'', ''#151828'', ''#121520'', ''#0e1018'')\<rparr>,
           \<lparr>phase = 0.25, colors = (''#141820'', ''#1e2430'', ''#1c2028'', ''#181c25'')\<rparr>,
           \<lparr>phase = 0.33, colors = (''#1c2230'', ''#2a3040'', ''#2e3540'', ''#323840'')\<rparr>,
           \<lparr>phase = 0.42, colors = (''#222a35'', ''#303a48'', ''#384050'', ''#404855'')\<rparr>,
           \<lparr>phase = 0.55, colors = (''#2a3040'', ''#3d4555'', ''#4a5265'', ''#555e70'')\<rparr>,
           \<lparr>phase = 1.00, colors = (''#2a3040'', ''#3d4555'', ''#4a5265'', ''#555e70'')\<rparr>]
      | fog \<Rightarrow>
          [\<lparr>phase = 0.00, colors = (''#222630'', ''#2e3238'', ''#2a2e35'', ''#262a30'')\<rparr>,
           \<lparr>phase = 0.15, colors = (''#2a3038'', ''#363c42'', ''#343840'', ''#303438'')\<rparr>,
           \<lparr>phase = 0.25, colors = (''#383e45'', ''#484e55'', ''#505558'', ''#585e62'')\<rparr>,
           \<lparr>phase = 0.33, colors = (''#484e55'', ''#5a6068'', ''#626870'', ''#707880'')\<rparr>,
           \<lparr>phase = 0.42, colors = (''#586068'', ''#6a7278'', ''#757c85'', ''#868e95'')\<rparr>,
           \<lparr>phase = 0.55, colors = (''#6a7585'', ''#808a98'', ''#95a0ab'', ''#b0b8c2'')\<rparr>,
           \<lparr>phase = 1.00, colors = (''#6a7585'', ''#808a98'', ''#95a0ab'', ''#b0b8c2'')\<rparr>])"

text \<open>
  The repository holds three copies of the file. The table above is the one of the second
  copy, which shows stars for \<open>clear\<close> only. The first copy has the same phases and
  other colours, and the same functions but for the stars, which it also shows for
  \<open>cloudy\<close>; its table and its \<open>getOverlayConfig\<close> carry the suffix \<open>copy1\<close> here.
  The third copy has no keyframe table and takes no precipitation.
\<close>

definition CONDITION_PALETTES_copy1 :: "SkyCondition \<Rightarrow> PaletteEntry list" where
  "CONDITION_PALETTES_copy1 condition =
     (case condition of
        clear \<Rightarrow>
          [\<lparr>phase = 0.00, colors = (''#0a0e27'', ''#1a1040'', ''#0d1b3e'', ''#0a1628'')\<rparr>,
           \<lparr>phase = 0.15, colors = (''#0d1535'', ''#1a1845'', ''#1e2555'', ''#1a2040'')\<rparr>,
           \<lparr>phase = 0.25, colors = (''#1a1a45'', ''#2d2555'', ''#4a3060'', ''#6a3555'')\<rparr>,
           \<lparr>phase = 0.33, colors = (''#2a2050'', ''#4a3065'', ''#8a4560'', ''#d46a50'')\<rparr>,
           \<lparr>phase = 0.42, colors = (''#3a4080'', ''#5a70b0'', ''#c08850'', ''#e8a040'')\<rparr>,
           \<lparr>phase = 0.55, colors = (''#2060c0'', ''#4088e0'', ''#70a8f0'', ''#a0c8ff'')\<rparr>,
           \<lparr>phase = 1.00, colors = (''#1a6dd4'', ''#3a8ee8'', ''#6ab4f7'', ''#d4edff'')\<rparr>]
      | cloudy \<Rightarrow>
          [\<lparr>phase = 0.00, colors = (''#141828'', ''#1e2440'', ''#1a2035'', ''#161c2e'')\<rparr>,
           \<lparr>phase = 0.15, colors = (''#181e38'', ''#222a48'', ''#283050'', ''#222840'')\<rparr>,
           \<lparr>phase = 0.25, colors = (''#252838'', ''#353a4a'', ''#484855'', ''#5a4a48'')\<rparr>,
           \<lparr>phase = 0.33, colors = (''#303040'', ''#484855'', ''#706058'', ''#a07050'')\<rparr>,
           \<lparr>phase = 0.42, colors = (''#405068'', ''#607090'', ''#988870'', ''#b89060'')\<rparr>,
           \<lparr>phase = 0.55, colors = (''#4a7ab5'', ''#6a95c8'', ''#8cb0d8'', ''#b8cfe5'')\<rparr>,
           \<lparr>phase = 1.00, colors = (''#4a7ab5'', ''#6a95c8'', ''#8cb0d8'', ''#b8cfe5'')\<rparr>]
      | overcast \<Rightarrow>
          [\<lparr>phase = 0.00, colors = (''#181c28'', ''#222630'', ''#1e2230'', ''#1a1e28'')\<rparr>,
           \<lparr>phase = 0.15, colors = (''#1e2230'', ''#282c38'', ''#2a2e38'', ''#252830'')\<rparr>,
           \<lparr>phase = 0.25, colors = (''#282c38'', ''#353840'', ''#404548'', ''#484c50'')\<rparr>,
           \<lparr>phase = 0.33, colors = (''#353840'', ''#484c55'', ''#585c62'', ''#686c70'')\<rparr>,
           \<lparr>phase = 0.42, colors = (''#454a55'', ''#585e68'', ''#6a7078'', ''#7a8088'')\<rparr>,
           \<lparr>phase = 0.55, colors = (''#5a6578'', ''#727e90'', ''#8a95a5'', ''#a0aab5'')\<rparr>,
           \<lparr>phase = 1.00, colors = (''#5a6578'', ''#727e90'', ''#8a95a5'', ''#a0aab5'')\<rparr>]
      | rain \<Rightarrow>
          [\<lparr>phase = 0.00, colors = (''#0e1218'', ''#161c28'', ''#111820'', ''#0e1418'')\<rparr>,
           \<lparr>phase = 0.15, colors = (''#121820'', ''#1a2230'', ''#182028'', ''#141c22'')\<rparr>,
           \<lparr>phase = 0.25, colors = (''#1a2028'', ''#252c38'', ''#283038'', ''#2a3038'')\<rparr>,
           \<lparr>phase = 0.33, colors = (''#222830'', ''#303840'', ''#384045'', ''#404848'')\<rparr>,
           \<lparr>phase = 0.42, colors = (''#2a3540'', ''#3a4550'', ''#485058'', ''#505860'')\<rparr>,
           \<lparr>phase = 0.55, colors = (''#3a4555'', ''#4d5868'', ''#5a6575'', ''#6e7888'')\<rparr>,
           \<lparr>phase = 1.00, colors = (''#3a4555'', ''#4d5868'', ''#5a6575'', ''#6e7888'')\<rparr>]
      | snow \<Rightarrow>
          [\<lparr>phase = 0.00, colors = (''#1a1e2e'', ''#252838'', ''#1e2130'', ''#1a1e28'')\<rparr>,
           \<lparr>phase = 0.15, colors = (''#202430'', ''#2a2e3a'', ''#282c38'', ''#242830'')\<rparr>,
           \<lparr>phase = 0.25, colors = (''#303440'', ''#3a3e48'', ''#454850'', ''#505458'')\<rparr>,
           \<lparr>phase = 0.33, colors = (''#404450'', ''#505560'', ''#606468'', ''#707478'')\<rparr>,
           \<lparr>phase = 0.42, colors = (''#556070'', ''#687080'', ''#788088'', ''#8a9098'')\<rparr>,
           \<lparr>phase = 0.55, colors = (''#7888a0'', ''#8fa0b8'', ''#a5b5c8'', ''#c0cdd8'')\<rparr>,
           \<lparr>phase = 1.00, colors = (''#7888a0'', ''#8fa0b8'', ''#a5b5c8'', ''#c0cdd8'')\<rparr>]
      | thunder \<Rightarrow>
          [\<lparr>phase = 0.00, colors = (''#0a0c15'', ''#151825'', ''#0e1018'', ''#0a0c12'')\<rparr>,
           \<lparr>phase = 0.15, colors = (''#0e1018'', ''#181c28'', ''#141820'', ''#101418'')\<rparr>,
           \<lparr>phase = 0.25, colors = (''#151820'', ''#202530'', ''#1e2228'', ''#1a1e25'')\<rparr>,
           \<lparr>phase = 0.33, colors = (''#1a2028'', ''#282e38'', ''#283035'', ''#2a3038'')\<rparr>,
           \<lparr>phase = 0.42, colors = (''#222a35'', ''#303a48'', ''#384050'', ''#404855'')\<rparr>,
           \<lparr>phase = 0.55, colors = (''#2a3040'', ''#3d4555'', ''#4a5265'', ''#555e70'')\<rparr>,
           \<lparr>phase = 1.00, colors = (''#2a3040'', ''#3d4555'', ''#4a5265'', ''#555e70'')\<rparr>]
      | fog \<Rightarrow>
          [\<lparr>phase = 0.00, colors = (''#1a1e28'', ''#222630'', ''#1e2228'', ''#1a1e25'')\<rparr>,
           \<lparr>phase = 0.15, colors = (''#202428'', ''#282c32'', ''#262a30'', ''#222628'')\<rparr>,
           \<lparr>phase = 0.25, colors = (''#303438'', ''#3a3e42'', ''#404448'', ''#484c50'')\<rparr>,
           \<lparr>phase = 0.33, colors = (''#404448'', ''#505458'', ''#585c60'', ''#606468'')\<rparr>,
           \<lparr>phase = 0.42, colors = (''#505558'', ''#606468'', ''#6a7075'', ''#787e82'')\<rparr>,
           \<lparr>phase = 0.55, colors = (''#6a7585'', ''#808a98'', ''#95a0ab'', ''#b0b8c2'')\<rparr>,
           \<lparr>phase = 1.00, colors = (''#6a7585'', ''#808a98'', ''#95a0ab'', ''#b0b8c2'')\<rparr>])"

subsection \<open>Colour interpolation\<close>

definition parseHex :: "string \<Rightarrow> int option \<times> int option \<times> int option" where
  "parseHex hex =
     (let h = replaceHash hex
      in (parseInt16 (slice 0 2 h), parseInt16 (slice 2 4 h), parseInt16 (slice 4 6 h)))"

text \<open>\<open>clamp\<close> of \<open>toHex\<close>; \<open>Math.max\<close> and \<open>Math.min\<close> give NaN on NaN.\<close>

definition clamp :: "int option \<Rightarrow> int option" where
  "clamp v = map_option (\<lambda>n. max 0 (min 255 n)) v"

definition toHex :: "int option \<Rightarrow> int option \<Rightarrow> int option \<Rightarrow> string" where
  "toHex r g b =
     ''#'' @ padStart2 (toString16 (clamp r)) @ padStart2 (toString16 (clamp g)) @
       padStart2 (toString16 (clamp b))"

text \<open>One channel of \<open>lerpColor\<close>: \<open>Math.round(ca[i] + (cb[i] - ca[i]) * t)\<close>.\<close>

definition lerpChannel :: "int option \<Rightarrow> int option \<Rightarrow> real \<Rightarrow> int option" where
  "lerpChannel ca cb t =
     (case (ca, cb) of
        (Some x, Some y) \<Rightarrow> Some (Math_round (real_of_int x + (real_of_int y - real_of_int x) * t))
      | _ \<Rightarrow> None)"

definition lerpColor :: "string \<Rightarrow> string \<Rightarrow> real \<Rightarrow> string" where
  "lerpColor a b t =
     (case (parseHex a, parseHex b) of
        ((ca0, ca1, ca2), (cb0, cb1, cb2)) \<Rightarrow>
          toHex (lerpChannel ca0 cb0 t) (lerpChannel ca1 cb1 t) (lerpChannel ca2 cb2 t))"

subsection \<open>Gradient\<close>

datatype error = TypeError

text \<open>
  The loop of \<open>getSkyGradientByPhase\<close> over the neighbouring keyframes: the first pair
  that brackets the phase, if there is one.
\<close>

fun findBracket :: "PaletteEntry list \<Rightarrow> real \<Rightarrow> (PaletteEntry \<times> PaletteEntry) option" where
  "findBracket (a # b # rest) clamped =
     (if clamped \<ge> phase a \<and> clamped \<le> phase b then Some (a, b)
      else findBracket (b # rest) clamped)"
| "findBracket _ clamped = None"

definition gradientString :: "Palette \<Rightarrow> string" where
  "gradientString cs =
     (case cs of (c0, c1, c2, c3) \<Rightarrow>
        ''linear-gradient(180deg, '' @ c0 @ '' 0%, '' @ c1 @ '' 30%, '' @ c2 @ '' 65%, '' @
          c3 @ '' 100%)'')"

text \<open>
  The body of \<open>getSkyGradientByPhase\<close> after the table lookup. Reading \<open>palettes[0].phase\<close>
  of an empty table throws.
\<close>

definition gradientOfPalettes :: "PaletteEntry list \<Rightarrow> real \<Rightarrow> error + string" where
  "gradientOfPalettes palettes skyPhase =
     (if palettes = [] then Inl TypeError
      else
        let clamped = max 0 (min 1 skyPhase);
            (lower, upper) =
              (case findBracket palettes clamped of
                 Some lu \<Rightarrow> lu
               | None \<Rightarrow> (hd palettes, last palettes));
            range = phase upper - phase lower;
            t = (if range > 0 then (clamped - phase lower) / range else 0)
        in case (colors lower, colors upper) of
             ((l0, l1, l2, l3), (u0, u1, u2, u3)) \<Rightarrow>
               Inr (gradientString
                 (lerpColor l0 u0 t, lerpColor l1 u1 t, lerpColor l2 u2 t, lerpColor l3 u3 t)))"

definition getSkyGradientByPhase :: "SkyCondition \<Rightarrow> real \<Rightarrow> error + string" where
  "getSkyGradientByPhase condition skyPhase =
     gradientOfPalettes (CONDITION_PALETTES condition) skyPhase"

definition getSkyGradientByPhase_copy1 :: "SkyCondition \<Rightarrow> real \<Rightarrow> error + string" where
  "getSkyGradientByPhase_copy1 condition skyPhase =
     gradientOfPalettes (CONDITION_PALETTES_copy1 condition) skyPhase"

subsection \<open>Effects\<close>

record OverlayConfig =
  rainOpacity :: real
  snowOpacity :: real
  fogOpacity :: real
  starsOpacity :: real

definition getOverlayConfig :: "SkyCondition \<Rightarrow> real \<Rightarrow> real \<Rightarrow> OverlayConfig" where
  "getOverlayConfig condition skyPhase precip =
     (let hasRain = (precip > 0);
          starsBase = (if condition = clear then 0.6 else 0);
          stars = (if skyPhase < 0.25 then starsBase * (1 - skyPhase / 0.25) else 0)
      in \<lparr>rainOpacity =
            (if hasRain
             then (if condition = rain then 0.35 else if condition = thunder then 0.45 else 0)
             else 0),
          snowOpacity = (if condition = snow then 0.4 else 0),
          fogOpacity = (if condition = fog then 0.35 else 0),
          starsOpacity = stars\<rparr>)"

definition getOverlayConfig_copy1 :: "SkyCondition \<Rightarrow> real \<Rightarrow> real \<Rightarrow> OverlayConfig" where
  "getOverlayConfig_copy1 condition skyPhase precip =
     (let hasRain = (precip > 0);
          starsBase = (if condition = clear \<or> condition = cloudy then 0.6 else 0);
          stars = (if skyPhase < 0.25 then starsBase * (1 - skyPhase / 0.25) else 0)
      in \<lparr>rainOpacity =
            (if hasRain
             then (if condition = rain then 0.35 else if condition = thunder then 0.45 else 0)
             else 0),
          snowOpacity = (if condition = snow then 0.4 else 0),
          fogOpacity = (if condition = fog then 0.35 else 0),
          starsOpacity = stars\<rparr>)"

record RainSpeed =
  layer1 :: string
  layer2 :: string

definition getRainSpeed :: "real option \<Rightarrow> RainSpeed" where
  "getRainSpeed precip =
     (let p = (case precip of Some v \<Rightarrow> v | None \<Rightarrow> 0)
      in if p > 5 then \<lparr>layer1 = ''0.12s'', layer2 = ''0.17s''\<rparr>
         else if p > 2 then \<lparr>layer1 = ''0.25s'', layer2 = ''0.35s''\<rparr>
         else \<lparr>layer1 = ''0.5s'', layer2 = ''0.7s''\<rparr>)"

definition adjustConditionByCloudCover :: "SkyCondition \<Rightarrow> real \<Rightarrow> SkyCondition" where
  "adjustConditionByCloudCover condition cover =
     (if condition = rain \<or> condition = snow \<or> condition = thunder \<or> condition = fog
      then condition
      else if cover \<ge> 80 then overcast
      else if cover \<ge> 50 then cloudy
      else if cover \<ge> 20 then cloudy
      else clear)"

subsection \<open>The component\<close>

text \<open>
  The hovered point as the component reads it: it asks for \<open>weatherCode\<close>, \<open>hour\<close>,
  \<open>precipitation\<close> and \<open>cloudCover\<close>, each of which may be missing.
\<close>

record HoveredPointInfo =
  weatherCode :: "real option"
  hour :: "real option"
  precipitation :: "real option"
  cloudCover :: "real option"

record SkyBackgroundProps =
  weatherCode :: "real option"
  hoveredPoint :: "HoveredPointInfo option"
  precipitation :: "real option"
  cloudCover :: "real option"
  latitude :: real

text \<open>The wall clock, as far as the component reads it from \<open>new Date()\<close>.\<close>

record Date =
  getHours :: nat
  getMinutes :: nat

text \<open>The local constants of \<open>SkyBackground\<close>, each as a function of the props.\<close>

definition effectiveCode :: "SkyBackgroundProps \<Rightarrow> real option" where
  "effectiveCode props =
     nullish (Option.bind (hoveredPoint props) HoveredPointInfo.weatherCode)
       (SkyBackgroundProps.weatherCode props)"

definition effectiveHour :: "SkyBackgroundProps \<Rightarrow> real option" where
  "effectiveHour props = Option.bind (hoveredPoint props) hour"

definition effectiveCloudCover :: "SkyBackgroundProps \<Rightarrow> real" where
  "effectiveCloudCover props =
     (case nullish (Option.bind (hoveredPoint props) HoveredPointInfo.cloudCover)
             (SkyBackgroundProps.cloudCover props) of
        Some v \<Rightarrow> v
      | None \<Rightarrow> 0)"

definition condition :: "SkyBackgroundProps \<Rightarrow> SkyCondition" where
  "condition props =
     (let base = weatherCodeToSkyCondition (effectiveCode props)
      in adjustConditionByCloudCover base (effectiveCloudCover props))"

definition hourFloat :: "SkyBackgroundProps \<Rightarrow> Date \<Rightarrow> real" where
  "hourFloat props now =
     (case effectiveHour props of
        Some h \<Rightarrow> h
      | None \<Rightarrow> real (getHours now) + real (getMinutes now) / 60)"

definition effectivePrecipitation :: "SkyBackgroundProps \<Rightarrow> real option" where
  "effectivePrecipitation props =
     nullish (Option.bind (hoveredPoint props) HoveredPointInfo.precipitation)
       (SkyBackgroundProps.precipitation props)"

definition overlay :: "SkyBackgroundProps \<Rightarrow> real \<Rightarrow> OverlayConfig" where
  "overlay props skyPhase =
     getOverlayConfig (condition props) skyPhase
       (case effectivePrecipitation props of Some v \<Rightarrow> v | None \<Rightarrow> 0)"

definition rainSpeed :: "SkyBackgroundProps \<Rightarrow> RainSpeed" where
  "rainSpeed props = getRainSpeed (effectivePrecipitation props)"

definition transitionDuration :: "SkyBackgroundProps \<Rightarrow> string" where
  "transitionDuration props =
     (case hoveredPoint props of Some _ \<Rightarrow> ''300ms'' | None \<Rightarrow> ''2000ms'')"

section \<open>Properties stated about the tables\<close>

text \<open>
  The palette invariant in the words of the specification: the keyframes of a condition
  are ordered strictly ascending by phase, every phase lies in [0, 1], the first keyframe
  has phase 0 and the last has phase 1.
\<close>

definition paletteInvariant :: "PaletteEntry list \<Rightarrow> bool" where
  "paletteInvariant ps =
     (ps \<noteq> [] \<and> sorted_wrt (<) (map phase ps) \<and>
      list_all (\<lambda>e. 0 \<le> phase e \<and> phase e \<le> 1) ps \<and>
      phase (hd ps) = 0 \<and> phase (last ps) = 1)"

text \<open>
  A colour string is canonical when \<open>parseHex\<close> reads three numbers from it and \<open>toHex\<close>
  writes the very same string back from them.
\<close>

definition canonicalColor :: "string \<Rightarrow> bool" where
  "canonicalColor c =
     (case parseHex c of
        (Some r, Some g, Some b) \<Rightarrow> toHex (Some r) (Some g) (Some b) = c
      | _ \<Rightarrow> False)"

definition canonicalEntry :: "PaletteEntry \<Rightarrow> bool" where
  "canonicalEntry e =
     (case colors e of (c0, c1, c2, c3) \<Rightarrow>
        canonicalColor c0 \<and> canonicalColor c1 \<and> canonicalColor c2 \<and> canonicalColor c3)"

text \<open>A number that is finite and at most \<open>B\<close> in absolute value.\<close>

definition finiteWithin :: "real \<Rightarrow> number \<Rightarrow> bool" where
  "finiteWithin B n = (\<exists>v. n = Finite v \<and> \<bar>v\<bar> \<le> B)"

section \<open>Solar position\<close>

subsection \<open>Doubles\<close>

lemma in_bind_iff: "r \<in> Set.bind A f \<longleftrightarrow> (\<exists>a\<in>A. r \<in> f a)"
  by (auto simp add: Set.bind_def)

lemma bind_nonempty:
  assumes "A \<noteq> {}" and "\<And>a. f a \<noteq> {}"
  shows "Set.bind A f \<noteq> {}"
proof -
  from assms(1) obtain a where "a \<in> A" by blast
  moreover from assms(2) obtain r where "r \<in> f a" by blast
  ultimately have "r \<in> Set.bind A f" by (auto simp add: in_bind_iff)
  then show ?thesis by blast
qed

lemma overflowThreshold_large: "16 * 10 ^ 307 < overflowThreshold"
  by (simp add: overflowThreshold_def)

lemma MAX_VALUE_less: "MAX_VALUE < overflowThreshold"
  by (simp add: MAX_VALUE_def overflowThreshold_def)

lemma MAX_VALUE_large: "1 \<le> MAX_VALUE"
  by (simp add: MAX_VALUE_def)

lemma rounded_nonempty: "rounded x \<noteq> {}"
proof -
  consider "x \<ge> overflowThreshold" | "x \<le> - overflowThreshold"
    | "\<bar>x\<bar> \<le> MAX_VALUE" | "MAX_VALUE < x" "x < overflowThreshold"
    | "x < - MAX_VALUE" "- overflowThreshold < x"
    by linarith
  then show ?thesis
  proof cases
    case 1
    then show ?thesis by (simp add: rounded_def)
  next
    case 2
    then show ?thesis by (simp add: rounded_def)
  next
    case 3
    then have "\<not> x \<ge> overflowThreshold" "\<not> x \<le> - overflowThreshold"
      using MAX_VALUE_less by linarith+
    moreover have "\<bar>x - x\<bar> \<le> \<bar>x\<bar> / 2 ^ 53 + 1 / 2 ^ 1075"
      by simp
    ultimately have "Finite x \<in> rounded x"
      using 3 by (simp add: rounded_def)
    then show ?thesis by blast
  next
    case 4
    then have no: "\<not> x \<ge> overflowThreshold" "\<not> x \<le> - overflowThreshold"
      using MAX_VALUE_large by linarith+
    have "\<bar>MAX_VALUE - x\<bar> \<le> \<bar>x\<bar> / 2 ^ 53 + 1 / 2 ^ 1075"
      using 4 by (simp add: MAX_VALUE_def overflowThreshold_def)
    moreover have "\<bar>MAX_VALUE\<bar> \<le> MAX_VALUE"
      using MAX_VALUE_large by simp
    ultimately have "Finite MAX_VALUE \<in> rounded x"
      using no unfolding rounded_def by auto
    then show ?thesis by blast
  next
    case 5
    then have no: "\<not> x \<ge> overflowThreshold" "\<not> x \<le> - overflowThreshold"
      using MAX_VALUE_large by linarith+
    have "\<bar>- MAX_VALUE - x\<bar> \<le> \<bar>x\<bar> / 2 ^ 53 + 1 / 2 ^ 1075"
      using 5 by (simp add: MAX_VALUE_def overflowThreshold_def)
    moreover have "\<bar>- MAX_VALUE\<bar> \<le> MAX_VALUE"
      using MAX_VALUE_large by simp
    ultimately have "Finite (- MAX_VALUE) \<in> rounded x"
      using no unfolding rounded_def by auto
    then show ?thesis by blast
  qed
qed

lemma rounded_finite:
  assumes "\<bar>x\<bar> < overflowThreshold" and "r \<in> rounded x"
  obtains v where "r = Finite v" and "\<bar>v\<bar> \<le> MAX_VALUE"
    and "\<bar>v - x\<bar> \<le> \<bar>x\<bar> / 2 ^ 53 + 1 / 2 ^ 1075"
proof -
  from assms(1) have "\<not> x \<ge> overflowThreshold" "\<not> x \<le> - overflowThreshold"
    by linarith+
  with assms(2) show thesis
    using that by (auto simp add: rounded_def)
qed

lemma rounding_error_small: "\<bar>x :: real\<bar> / 2 ^ 53 + 1 / 2 ^ 1075 \<le> \<bar>x\<bar> / 100 + 1 / 100"
proof -
  have "\<bar>x\<bar> / 2 ^ 53 \<le> \<bar>x\<bar> / 100"
    by (rule divide_left_mono) simp_all
  moreover have "(1::real) / 2 ^ 1075 \<le> 1 / 100"
    by simp
  ultimately show ?thesis by linarith
qed

lemma finiteWithin_mono: "finiteWithin A n \<Longrightarrow> A \<le> B \<Longrightarrow> finiteWithin B n"
  by (auto simp add: finiteWithin_def)

lemma finiteWithin_Finite [simp]: "finiteWithin B (Finite v) \<longleftrightarrow> \<bar>v\<bar> \<le> B"
  by (simp add: finiteWithin_def)

lemma finiteWithin_not_NaN: "finiteWithin B n \<Longrightarrow> n \<noteq> NaN"
  by (auto simp add: finiteWithin_def)

text \<open>A rounded value that does not overflow is finite, and close to the exact one.\<close>

lemma rounded_within:
  assumes "\<bar>x\<bar> \<le> C" and "C \<le> 16 * 10 ^ 307" and "r \<in> rounded x"
  shows "finiteWithin (101 / 100 * C + 1 / 100) r" and "finiteWithin MAX_VALUE r"
proof -
  have "\<bar>x\<bar> < overflowThreshold"
    using assms(1,2) overflowThreshold_large by linarith
  then obtain v where v: "r = Finite v" "\<bar>v\<bar> \<le> MAX_VALUE"
    "\<bar>v - x\<bar> \<le> \<bar>x\<bar> / 2 ^ 53 + 1 / 2 ^ 1075"
    using assms(3) by (rule rounded_finite)
  have "\<bar>v - x\<bar> \<le> \<bar>x\<bar> / 100 + 1 / 100"
    using v(3) rounding_error_small [of x] by linarith
  then have "\<bar>v\<bar> \<le> 101 / 100 * C + 1 / 100"
    using assms(1) by linarith
  then show "finiteWithin (101 / 100 * C + 1 / 100) r" and "finiteWithin MAX_VALUE r"
    using v(1,2) by simp_all
qed

lemma approximation_nonempty: "approximation x \<noteq> {}"
proof -
  have "Finite x \<in> approximation x"
    by (simp add: approximation_def)
  then show ?thesis by blast
qed

lemma fmul_nonempty: "fmul a b \<noteq> {}"
  by (cases a; cases b) (simp_all add: fmul_def rounded_nonempty)

lemma fadd_nonempty: "fadd a b \<noteq> {}"
  by (cases a; cases b) (simp_all add: fadd_def rounded_nonempty)

lemma fsub_nonempty: "fsub a b \<noteq> {}"
  by (simp add: fsub_def fadd_nonempty)

lemma fdiv_nonempty: "fdiv a b \<noteq> {}"
  by (cases a; cases b) (simp_all add: fdiv_def rounded_nonempty)

lemma Math_sin_nonempty: "Math_sin a \<noteq> {}"
  by (cases a) (simp_all add: Math_sin_def approximation_nonempty)

lemma Math_cos_nonempty: "Math_cos a \<noteq> {}"
  by (cases a) (simp_all add: Math_cos_def approximation_nonempty)

lemma Math_asin_nonempty: "Math_asin a \<noteq> {}"
  by (cases a) (simp_all add: Math_asin_def approximation_nonempty)

lemma fmul_within:
  assumes "finiteWithin A a" and "finiteWithin B b" and "A * B \<le> 16 * 10 ^ 307"
    and "r \<in> fmul a b"
  shows "finiteWithin (101 / 100 * (A * B) + 1 / 100) r" and "finiteWithin MAX_VALUE r"
proof -
  from assms(1) obtain x where x: "a = Finite x" "\<bar>x\<bar> \<le> A"
    by (auto simp add: finiteWithin_def)
  from assms(2) obtain y where y: "b = Finite y" "\<bar>y\<bar> \<le> B"
    by (auto simp add: finiteWithin_def)
  have "\<bar>x\<bar> * \<bar>y\<bar> \<le> A * B"
    using x(2) y(2) by (intro mult_mono) simp_all
  then have le: "\<bar>x * y\<bar> \<le> A * B"
    by (simp add: abs_mult)
  have r: "r \<in> rounded (x * y)"
    using assms(4) x(1) y(1) by (simp add: fmul_def)
  show "finiteWithin (101 / 100 * (A * B) + 1 / 100) r"
    using le assms(3) r by (rule rounded_within)
  show "finiteWithin MAX_VALUE r"
    using le assms(3) r by (rule rounded_within)
qed

lemma fadd_within:
  assumes "finiteWithin A a" and "finiteWithin B b" and "A + B \<le> 16 * 10 ^ 307"
    and "r \<in> fadd a b"
  shows "finiteWithin (101 / 100 * (A + B) + 1 / 100) r"
proof -
  from assms(1) obtain x where x: "a = Finite x" "\<bar>x\<bar> \<le> A"
    by (auto simp add: finiteWithin_def)
  from assms(2) obtain y where y: "b = Finite y" "\<bar>y\<bar> \<le> B"
    by (auto simp add: finiteWithin_def)
  have le: "\<bar>x + y\<bar> \<le> A + B"
    using x(2) y(2) by linarith
  have r: "r \<in> rounded (x + y)"
    using assms(4) x(1) y(1) by (simp add: fadd_def)
  show ?thesis
    using le assms(3) r by (rule rounded_within)
qed

lemma fsub_within:
  assumes "finiteWithin A a" and "finiteWithin B b" and "A + B \<le> 16 * 10 ^ 307"
    and "r \<in> fsub a b"
  shows "finiteWithin (101 / 100 * (A + B) + 1 / 100) r"
proof -
  from assms(2) have nb: "finiteWithin B (fneg b)"
    by (auto simp add: finiteWithin_def)
  have "r \<in> fadd a (fneg b)"
    using assms(4) by (simp add: fsub_def)
  with assms(1) nb assms(3) show ?thesis
    by (rule fadd_within)
qed

lemma approximation_within:
  assumes "\<bar>x\<bar> \<le> C" and "r \<in> approximation x"
  shows "finiteWithin (C + 1) r"
proof -
  from assms(2) obtain v where v: "r = Finite v" "\<bar>v - x\<bar> \<le> 1 / 2 ^ 50"
    by (auto simp add: approximation_def)
  have "(1::real) / 2 ^ 50 \<le> 1" by simp
  then have "\<bar>v\<bar> \<le> C + 1"
    using v(2) assms(1) by linarith
  then show ?thesis using v(1) by simp
qed

lemma Math_sin_within:
  assumes "finiteWithin A a" and "r \<in> Math_sin a"
  shows "finiteWithin 2 r"
proof -
  from assms(1) obtain x where x: "a = Finite x"
    by (auto simp add: finiteWithin_def)
  have "r \<in> approximation (sin x)"
    using assms(2) x by (simp add: Math_sin_def)
  moreover have "\<bar>sin x\<bar> \<le> 1" by simp
  ultimately have "finiteWithin (1 + 1) r"
    by (rule approximation_within [rotated])
  then show ?thesis by simp
qed

lemma Math_cos_within:
  assumes "finiteWithin A a" and "r \<in> Math_cos a"
  shows "finiteWithin 2 r"
proof -
  from assms(1) obtain x where x: "a = Finite x"
    by (auto simp add: finiteWithin_def)
  have "r \<in> approximation (cos x)"
    using assms(2) x by (simp add: Math_cos_def)
  moreover have "\<bar>cos x\<bar> \<le> 1" by simp
  ultimately have "finiteWithin (1 + 1) r"
    by (rule approximation_within [rotated])
  then show ?thesis by simp
qed

lemma Math_asin_within:
  assumes "- 1 \<le> x" and "x \<le> 1" and "r \<in> Math_asin (Finite x)"
  shows "finiteWithin 3 r"
proof -
  have "r \<in> approximation (arcsin x)"
    using assms by (simp add: Math_asin_def)
  moreover have "\<bar>arcsin x\<bar> \<le> 2"
  proof -
    have "- (pi / 2) \<le> arcsin x" using assms(1,2) by (rule arcsin_lbound)
    moreover have "arcsin x \<le> pi / 2" using assms(1,2) by (rule arcsin_ubound)
    moreover have "pi / 2 \<le> 2" using pi_less_4 by simp
    ultimately show ?thesis by linarith
  qed
  ultimately have "finiteWithin (2 + 1) r"
    by (rule approximation_within [rotated])
  then show ?thesis by simp
qed

text \<open>The clamp: whatever \<open>sinAlt\<close> is, unless it is NaN, the argument is in [-1, 1].\<close>

lemma asinArgument_clamped:
  assumes "s \<noteq> NaN"
  obtains v where "asinArgument s = Finite v" and "- 1 \<le> v" and "v \<le> 1"
  using assms by (cases s) (simp_all add: asinArgument_def)

lemma asinArgument_NaN: "asinArgument NaN = NaN"
  by (simp add: asinArgument_def)

text \<open>Without the clamp a value that overshoots by one unit in the last place is lost.\<close>

lemma Math_asin_overshoot:
  "Math_asin (Finite (1 + 1 / 2 ^ 52)) = {NaN}"
  "asinArgument (Finite (1 + 1 / 2 ^ 52)) = Finite 1"
  by (simp_all add: Math_asin_def asinArgument_def)

subsection \<open>The altitude\<close>


lemma TO_RAD_value:
  assumes "toRad \<in> TO_RAD"
  obtains t where "toRad = Finite t" and "0 < t" and "t \<le> 3 / 100"
proof -
  let ?x = "884279719003555 / 2 ^ 48 / 180 :: real"
  have r: "toRad \<in> rounded ?x"
    using assms by (simp add: TO_RAD_def Math_PI_def fdiv_def)
  have lo: "1 / 100 < ?x" and hi: "?x \<le> 2 / 100"
    by simp_all
  have "\<bar>?x\<bar> < overflowThreshold"
    using hi lo overflowThreshold_large by simp
  then obtain v where v: "toRad = Finite v"
    "\<bar>v - ?x\<bar> \<le> \<bar>?x\<bar> / 2 ^ 53 + 1 / 2 ^ 1075"
    using r by (rule rounded_finite)
  have "\<bar>?x\<bar> / 2 ^ 53 + 1 / 2 ^ 1075 \<le> 1 / 1000"
    by simp
  then have "\<bar>v - ?x\<bar> \<le> 1 / 1000"
    using v(2) by linarith
  then have "0 < v" and "v \<le> 3 / 100"
    using lo hi by linarith+
  with v(1) show thesis using that by blast
qed

lemma TO_DEG_within:
  assumes "toDeg \<in> TO_DEG"
  shows "finiteWithin 60 toDeg"
proof -
  let ?x = "180 / (884279719003555 / 2 ^ 48) :: real"
  have r: "toDeg \<in> rounded ?x"
    using assms by (simp add: TO_DEG_def Math_PI_def fdiv_def)
  have "\<bar>?x\<bar> \<le> 58" by simp
  then have "finiteWithin (101 / 100 * 58 + 1 / 100) toDeg"
    using _ r by (rule rounded_within) simp
  then show ?thesis
    by (rule finiteWithin_mono) simp
qed

lemma TO_RAD_nonempty: "TO_RAD \<noteq> {}"
  by (simp add: TO_RAD_def fdiv_nonempty)

lemma TO_DEG_nonempty: "TO_DEG \<noteq> {}"
  by (simp add: TO_DEG_def fdiv_nonempty)

lemma declination_nonempty: "declination toRad day \<noteq> {}"
  unfolding declination_def
  by (intro bind_nonempty fdiv_nonempty fmul_nonempty fsub_nonempty Math_sin_nonempty
      rounded_nonempty)

lemma hourAngle_nonempty: "hourAngle h \<noteq> {}"
  unfolding hourAngle_def
  by (intro bind_nonempty fmul_nonempty fsub_nonempty)

lemma sinAlt_nonempty: "sinAlt toRad lat decl angle \<noteq> {}"
  unfolding sinAlt_def
  by (intro bind_nonempty fmul_nonempty fadd_nonempty Math_sin_nonempty Math_cos_nonempty)

lemma calcSolarAltitude_nonempty: "calcSolarAltitude lat day h \<noteq> {}"
  unfolding calcSolarAltitude_def
  by (intro bind_nonempty TO_RAD_nonempty TO_DEG_nonempty declination_nonempty
      hourAngle_nonempty sinAlt_nonempty Math_asin_nonempty fmul_nonempty)

lemma declination_within:
  assumes toRad: "finiteWithin (3 / 100) toRad" and day: "1 \<le> day" "day \<le> 366"
    and decl: "decl \<in> declination toRad (Finite day)"
  shows "finiteWithin 51 decl"
proof -
  from decl obtain k a d x s c where
    k: "k \<in> fdiv (Finite 360) (Finite 365)" and a: "a \<in> fmul toRad k"
    and d: "d \<in> fsub (Finite day) (Finite 81)" and x: "x \<in> fmul a d"
    and s: "s \<in> Math_sin x" and c: "c \<in> rounded 23.45" and r: "decl \<in> fmul c s"
    unfolding declination_def by (auto simp add: in_bind_iff)
  have "k \<in> rounded (360 / 365)"
    using k by (simp add: fdiv_def)
  then have "finiteWithin (101 / 100 * 1 + 1 / 100) k"
    by (rule rounded_within [rotated 2]) simp_all
  then have k': "finiteWithin 2 k"
    by (rule finiteWithin_mono) simp
  have "finiteWithin (101 / 100 * (3 / 100 * 2) + 1 / 100) a"
    using toRad k' _ a by (rule fmul_within) simp
  then have a': "finiteWithin 1 a"
    by (rule finiteWithin_mono) simp
  have "finiteWithin (101 / 100 * (366 + 81) + 1 / 100) d"
    using _ _ _ d by (rule fsub_within) (use day in simp_all)
  then have d': "finiteWithin 500 d"
    by (rule finiteWithin_mono) simp
  have "finiteWithin (101 / 100 * (1 * 500) + 1 / 100) x"
    using a' d' _ x by (rule fmul_within) simp
  then have s': "finiteWithin 2 s"
    using s by (rule Math_sin_within)
  have "finiteWithin (101 / 100 * 24 + 1 / 100) c"
    using _ _ c by (rule rounded_within) simp_all
  then have c': "finiteWithin 25 c"
    by (rule finiteWithin_mono) simp
  have "finiteWithin (101 / 100 * (25 * 2) + 1 / 100) decl"
    using c' s' _ r by (rule fmul_within) simp
  then show ?thesis
    by (rule finiteWithin_mono) simp
qed

lemma hourAngle_within:
  assumes h: "\<bar>h\<bar> \<le> 10 ^ 307" and angle: "angle \<in> hourAngle (Finite h)"
  shows "finiteWithin MAX_VALUE angle"
proof -
  from angle obtain d where d: "d \<in> fsub (Finite h) (Finite 12)"
    and r: "angle \<in> fmul d (Finite 15)"
    unfolding hourAngle_def by (auto simp add: in_bind_iff)
  have "finiteWithin (101 / 100 * (10 ^ 307 + 12) + 1 / 100) d"
    using _ _ _ d by (rule fsub_within) (use h in simp_all)
  moreover have "finiteWithin 15 (Finite 15)"
    by simp
  moreover have "(101 / 100 * (10 ^ 307 + 12) + 1 / 100) * 15 \<le> (16 * 10 ^ 307 :: real)"
    by simp
  ultimately show ?thesis
    using r by (rule fmul_within)
qed

lemma MAX_VALUE_scaled: "3 / 100 * MAX_VALUE \<le> 16 * 10 ^ 307"
  by (simp add: MAX_VALUE_def)

lemma sinAlt_within:
  assumes toRad: "finiteWithin (3 / 100) toRad" and lat: "finiteWithin 90 lat"
    and decl: "finiteWithin 51 decl" and angle: "finiteWithin MAX_VALUE angle"
    and s: "s \<in> sinAlt toRad lat decl angle"
  shows "finiteWithin 20 s"
proof -
  from s obtain x1 s1 x2 s2 p1 x3 c1 x4 c2 p2 x5 c3 p3 where
    x1: "x1 \<in> fmul toRad lat" and s1: "s1 \<in> Math_sin x1"
    and x2: "x2 \<in> fmul toRad decl" and s2: "s2 \<in> Math_sin x2"
    and p1: "p1 \<in> fmul s1 s2"
    and x3: "x3 \<in> fmul toRad lat" and c1: "c1 \<in> Math_cos x3"
    and x4: "x4 \<in> fmul toRad decl" and c2: "c2 \<in> Math_cos x4"
    and p2: "p2 \<in> fmul c1 c2"
    and x5: "x5 \<in> fmul toRad angle" and c3: "c3 \<in> Math_cos x5"
    and p3: "p3 \<in> fmul p2 c3"
    and r: "s \<in> fadd p1 p3"
    unfolding sinAlt_def by (auto simp add: in_bind_iff)
  have "finiteWithin (101 / 100 * (3 / 100 * 90) + 1 / 100) x1"
    using toRad lat _ x1 by (rule fmul_within) simp
  then have s1': "finiteWithin 2 s1"
    using s1 by (rule Math_sin_within)
  have "finiteWithin (101 / 100 * (3 / 100 * 51) + 1 / 100) x2"
    using toRad decl _ x2 by (rule fmul_within) simp
  then have s2': "finiteWithin 2 s2"
    using s2 by (rule Math_sin_within)
  have "finiteWithin (101 / 100 * (2 * 2) + 1 / 100) p1"
    using s1' s2' _ p1 by (rule fmul_within) simp
  then have p1': "finiteWithin 5 p1"
    by (rule finiteWithin_mono) simp
  have "finiteWithin (101 / 100 * (3 / 100 * 90) + 1 / 100) x3"
    using toRad lat _ x3 by (rule fmul_within) simp
  then have c1': "finiteWithin 2 c1"
    using c1 by (rule Math_cos_within)
  have "finiteWithin (101 / 100 * (3 / 100 * 51) + 1 / 100) x4"
    using toRad decl _ x4 by (rule fmul_within) simp
  then have c2': "finiteWithin 2 c2"
    using c2 by (rule Math_cos_within)
  have "finiteWithin (101 / 100 * (2 * 2) + 1 / 100) p2"
    using c1' c2' _ p2 by (rule fmul_within) simp
  then have p2': "finiteWithin 5 p2"
    by (rule finiteWithin_mono) simp
  have "finiteWithin MAX_VALUE x5"
    using toRad angle MAX_VALUE_scaled x5 by (rule fmul_within)
  then have c3': "finiteWithin 2 c3"
    using c3 by (rule Math_cos_within)
  have "finiteWithin (101 / 100 * (5 * 2) + 1 / 100) p3"
    using p2' c3' _ p3 by (rule fmul_within) simp
  then have p3': "finiteWithin 11 p3"
    by (rule finiteWithin_mono) simp
  have "finiteWithin (101 / 100 * (5 + 11) + 1 / 100) s"
    using p1' p3' _ r by (rule fadd_within) simp
  then show ?thesis
    by (rule finiteWithin_mono) simp
qed

lemma calcSolarAltitude_within:
  assumes lat: "- 90 \<le> lat" "lat \<le> 90" and day: "1 \<le> day" "day \<le> 366"
    and h: "\<bar>h\<bar> \<le> 10 ^ 307"
    and r: "r \<in> calcSolarAltitude (Finite lat) (Finite day) (Finite h)"
  shows "finiteWithin 200 r"
proof -
  from r obtain toRad toDeg decl angle s a where
    toRad: "toRad \<in> TO_RAD" and toDeg: "toDeg \<in> TO_DEG"
    and decl: "decl \<in> declination toRad (Finite day)"
    and angle: "angle \<in> hourAngle (Finite h)"
    and s: "s \<in> sinAlt toRad (Finite lat) decl angle"
    and a: "a \<in> Math_asin (asinArgument s)"
    and res: "r \<in> fmul toDeg a"
    unfolding calcSolarAltitude_def by (auto simp add: in_bind_iff)
  from toRad obtain t where "toRad = Finite t" "0 < t" "t \<le> 3 / 100"
    by (rule TO_RAD_value)
  then have toRad': "finiteWithin (3 / 100) toRad"
    by simp
  have toDeg': "finiteWithin 60 toDeg"
    using toDeg by (rule TO_DEG_within)
  have decl': "finiteWithin 51 decl"
    using toRad' day decl by (rule declination_within)
  have angle': "finiteWithin MAX_VALUE angle"
    using h angle by (rule hourAngle_within)
  have lat': "finiteWithin 90 (Finite lat)"
    using lat by simp
  have "finiteWithin 20 s"
    using toRad' lat' decl' angle' s by (rule sinAlt_within)
  then have "s \<noteq> NaN"
    by (rule finiteWithin_not_NaN)
  then obtain v where v: "asinArgument s = Finite v" "- 1 \<le> v" "v \<le> 1"
    by (rule asinArgument_clamped)
  have a': "finiteWithin 3 a"
    using v(2,3) a unfolding v(1) by (rule Math_asin_within)
  have "finiteWithin (101 / 100 * (60 * 3) + 1 / 100) r"
    using toDeg' a' _ res by (rule fmul_within) simp
  then show ?thesis
    by (rule finiteWithin_mono) simp
qed

text \<open>Past the double range the hour angle is an infinity, and its cosine is NaN.\<close>

lemma hourAngle_overflow:
  assumes "angle \<in> hourAngle (Finite (10 ^ 308))"
  shows "angle = Infinity"
proof -
  from assms obtain d where d: "d \<in> fsub (Finite (10 ^ 308)) (Finite 12)"
    and r: "angle \<in> fmul d (Finite 15)"
    unfolding hourAngle_def by (auto simp add: in_bind_iff)
  let ?x = "10 ^ 308 - 12 :: real"
  have dr: "d \<in> rounded ?x"
    using d by (simp add: fsub_def fadd_def)
  have "\<bar>?x\<bar> < overflowThreshold"
    by (simp add: overflowThreshold_def)
  then obtain v where v: "d = Finite v" "\<bar>v - ?x\<bar> \<le> \<bar>?x\<bar> / 2 ^ 53 + 1 / 2 ^ 1075"
    using dr by (rule rounded_finite)
  have "\<bar>v - ?x\<bar> \<le> \<bar>?x\<bar> / 100 + 1 / 100"
    using v(2) rounding_error_small [of ?x] by linarith
  then have "?x - (\<bar>?x\<bar> / 100 + 1 / 100) \<le> v"
    by (simp only: abs_diff_le_iff)
  moreover have "9 * 10 ^ 307 \<le> ?x - (\<bar>?x\<bar> / 100 + 1 / 100)"
    by simp
  ultimately have "9 * 10 ^ 307 \<le> v"
    by (rule order_trans [rotated])
  then have "overflowThreshold \<le> v * 15"
    by (simp add: overflowThreshold_def)
  then have "rounded (v * 15) = {Infinity}"
    by (simp add: rounded_def)
  then show ?thesis
    using r v(1) by (simp add: fmul_def)
qed

lemma sinAlt_of_infinite_angle:
  assumes toRad: "toRad = Finite t" "0 < t" and s: "s \<in> sinAlt toRad lat decl Infinity"
  shows "s = NaN"
proof -
  from s obtain p1 p2 x5 c3 p3 where
    x5: "x5 \<in> fmul toRad Infinity" and c3: "c3 \<in> Math_cos x5"
    and p3: "p3 \<in> fmul p2 c3" and r: "s \<in> fadd p1 p3"
    unfolding sinAlt_def by (auto simp add: in_bind_iff)
  have "x5 = Infinity"
    using x5 toRad by (simp add: fmul_def signedInfinity_def)
  then have "c3 = NaN"
    using c3 by (simp add: Math_cos_def)
  then have "p3 = NaN"
    using p3 by (simp add: fmul_def)
  then show ?thesis
    using r by (simp add: fadd_def)
qed

lemma calcSolarAltitude_overflow:
  assumes "r \<in> calcSolarAltitude lat day (Finite (10 ^ 308))"
  shows "r = NaN"
proof -
  from assms obtain toRad toDeg decl angle s a where
    toRad: "toRad \<in> TO_RAD"
    and angle: "angle \<in> hourAngle (Finite (10 ^ 308))"
    and s: "s \<in> sinAlt toRad lat decl angle"
    and a: "a \<in> Math_asin (asinArgument s)"
    and res: "r \<in> fmul toDeg a"
    unfolding calcSolarAltitude_def by (auto simp add: in_bind_iff)
  from toRad obtain t where t: "toRad = Finite t" "0 < t"
    by (rule TO_RAD_value)
  have "angle = Infinity"
    using angle by (rule hourAngle_overflow)
  then have "s = NaN"
    using t s by (simp add: sinAlt_of_infinite_angle)
  then have "a = NaN"
    using a by (simp add: asinArgument_NaN Math_asin_def)
  then show ?thesis
    using res by (simp add: fmul_def)
qed

text \<open>
  C1, as stated, fails: the claim lets the hour be any real number. At latitude 35.6762,
  day 172 and hour \<open>10^308\<close> the hour angle \<open>(hourFloat - 12) * 15\<close> overflows to an
  infinity, its cosine is NaN, \<open>Math.min\<close> and \<open>Math.max\<close> pass NaN on, and NaN is all
  the function can return.
\<close>

theorem calcSolarAltitude_NaN_counterexample:
  "calcSolarAltitude (Finite 35.6762) (Finite 172) (Finite (10 ^ 308)) = {NaN}"
  using calcSolarAltitude_overflow calcSolarAltitude_nonempty by blast

text \<open>
  C1, amended. For every latitude in [-90, 90], every day of the year in [1, 366] and
  every hour of absolute value at most \<open>10^307\<close>, \<open>calcSolarAltitude\<close> returns a value, and
  every value it can return is a finite number, never NaN. The clamp does its part
  whatever the rounding did: for every \<open>sinAlt\<close> other than NaN, also one outside
  [-1, 1] or an infinity, the value handed to \<open>Math.asin\<close> lies in [-1, 1].
\<close>

theorem calcSolarAltitude_total:
  assumes "- 90 \<le> lat" and "lat \<le> 90" and "1 \<le> day" and "day \<le> 366"
    and "\<bar>h\<bar> \<le> 10 ^ 307"
  shows "calcSolarAltitude (Finite lat) (Finite day) (Finite h) \<noteq> {} \<and>
    calcSolarAltitude (Finite lat) (Finite day) (Finite h) \<subseteq> range Finite \<and>
    NaN \<notin> calcSolarAltitude (Finite lat) (Finite day) (Finite h) \<and>
    (s \<noteq> NaN \<longrightarrow> (\<exists>v. asinArgument s = Finite v \<and> - 1 \<le> v \<and> v \<le> 1))"
proof -
  have "calcSolarAltitude (Finite lat) (Finite day) (Finite h) \<noteq> {}"
    by (rule calcSolarAltitude_nonempty)
  moreover have fin: "calcSolarAltitude (Finite lat) (Finite day) (Finite h) \<subseteq> range Finite"
  proof
    fix r
    assume "r \<in> calcSolarAltitude (Finite lat) (Finite day) (Finite h)"
    with assms have "finiteWithin 200 r"
      by (rule calcSolarAltitude_within)
    then show "r \<in> range Finite"
      by (auto simp add: finiteWithin_def)
  qed
  moreover have "NaN \<notin> calcSolarAltitude (Finite lat) (Finite day) (Finite h)"
    using fin by auto
  moreover have "s \<noteq> NaN \<longrightarrow> (\<exists>v. asinArgument s = Finite v \<and> - 1 \<le> v \<and> v \<le> 1)"
    using asinArgument_clamped by blast
  ultimately show ?thesis
    by blast
qed

theorem calcSolarAltitude_total_witness:
  "calcSolarAltitude (Finite 35.6762) (Finite 172) (Finite 14.5) \<noteq> {} \<and>
   calcSolarAltitude (Finite 35.6762) (Finite 172) (Finite 14.5) \<subseteq> range Finite \<and>
   NaN \<notin> calcSolarAltitude (Finite 35.6762) (Finite 172) (Finite 14.5) \<and>
   (\<exists>v. asinArgument (Finite (1 + 1 / 2 ^ 52)) = Finite v \<and> - 1 \<le> v \<and> v \<le> 1) \<and>
   (\<exists>v. asinArgument Infinity = Finite v \<and> - 1 \<le> v \<and> v \<le> 1)"
  using calcSolarAltitude_total [of "35.6762" 172 "14.5" "Finite (1 + 1 / 2 ^ 52)"]
    calcSolarAltitude_total [of "35.6762" 172 "14.5" Infinity]
  by simp

subsection \<open>The sky phase\<close>

lemma altitudeToSkyPhase_bounds:
  "0 \<le> altitudeToSkyPhase a" "altitudeToSkyPhase a \<le> 1"
  by (simp_all add: altitudeToSkyPhase_def)

lemma altitudeToSkyPhase_mono:
  assumes "a \<le> b"
  shows "altitudeToSkyPhase a \<le> altitudeToSkyPhase b"
proof -
  consider "a \<le> - 12" | "- 12 < a" "30 \<le> b" | "- 12 < a" "b < 30"
    by linarith
  then show ?thesis
  proof cases
    case 1
    then show ?thesis
      using altitudeToSkyPhase_bounds(1) [of b] by (simp add: altitudeToSkyPhase_def)
  next
    case 2
    then show ?thesis
      using altitudeToSkyPhase_bounds(2) [of a] by (simp add: altitudeToSkyPhase_def)
  next
    case 3
    then show ?thesis
      using assms by (simp add: altitudeToSkyPhase_def divide_right_mono)
  qed
qed

text \<open>
  C2. \<open>altitudeToSkyPhase\<close> is the piecewise-linear map: 0 for an altitude of at most -12,
  1 for an altitude of at least 30, and \<open>(altitude + 12) / 42\<close> between; so its result is
  always in [0, 1] and it is monotonically non-decreasing; at -20 it is 0, at 50 it is 1
  and at 9 it is 0.5.
\<close>

theorem altitudeToSkyPhase_piecewise:
  "(a \<le> - 12 \<longrightarrow> altitudeToSkyPhase a = 0) \<and>
   (a \<ge> 30 \<longrightarrow> altitudeToSkyPhase a = 1) \<and>
   (- 12 < a \<and> a < 30 \<longrightarrow> altitudeToSkyPhase a = (a + 12) / 42) \<and>
   0 \<le> altitudeToSkyPhase a \<and> altitudeToSkyPhase a \<le> 1 \<and>
   (a \<le> b \<longrightarrow> altitudeToSkyPhase a \<le> altitudeToSkyPhase b) \<and>
   altitudeToSkyPhase (- 20) = 0 \<and> altitudeToSkyPhase 50 = 1 \<and>
   altitudeToSkyPhase 9 = 0.5"
proof -
  have "a \<le> - 12 \<longrightarrow> altitudeToSkyPhase a = 0"
    by (simp add: altitudeToSkyPhase_def)
  moreover have "a \<ge> 30 \<longrightarrow> altitudeToSkyPhase a = 1"
    by (simp add: altitudeToSkyPhase_def)
  moreover have "- 12 < a \<and> a < 30 \<longrightarrow> altitudeToSkyPhase a = (a + 12) / 42"
    by (simp add: altitudeToSkyPhase_def)
  moreover have "a \<le> b \<longrightarrow> altitudeToSkyPhase a \<le> altitudeToSkyPhase b"
    using altitudeToSkyPhase_mono by blast
  moreover have "altitudeToSkyPhase (- 20) = 0" "altitudeToSkyPhase 50 = 1"
    "altitudeToSkyPhase 9 = 0.5"
    by (simp_all add: altitudeToSkyPhase_def)
  ultimately show ?thesis
    using altitudeToSkyPhase_bounds [of a] by blast
qed

theorem altitudeToSkyPhase_piecewise_witness:
  "(- 15 :: real) \<le> - 12 \<and> altitudeToSkyPhase (- 15) = 0 \<and>
   (40 :: real) \<ge> 30 \<and> altitudeToSkyPhase 40 = 1 \<and>
   (- 12 :: real) < 9 \<and> (9 :: real) < 30 \<and> altitudeToSkyPhase 9 = (9 + 12) / 42 \<and>
   (- 15 :: real) \<le> 9 \<and> altitudeToSkyPhase (- 15) \<le> altitudeToSkyPhase 9"
  using altitudeToSkyPhase_piecewise [of "- 15" 9] altitudeToSkyPhase_piecewise [of 40 40]
    altitudeToSkyPhase_piecewise [of 9 40]
  by simp

section \<open>Weather classification\<close>

text \<open>
  C3. \<open>weatherCodeToSkyCondition\<close> maps codes of at most 1 to clear, 2 to cloudy, 3 to
  overcast, 45-48 to fog, 51-67 and 80-82 to rain, 71-77 to snow, codes of at least 95 to
  thunder, and \<open>undefined\<close> or any other code to clear. The function has no failing
  branch: it returns a condition for every input.
\<close>

theorem weatherCodeToSkyCondition_table:
  "weatherCodeToSkyCondition None = clear \<and>
   (c \<le> 1 \<longrightarrow> weatherCodeToSkyCondition (Some c) = clear) \<and>
   (c = 2 \<longrightarrow> weatherCodeToSkyCondition (Some c) = cloudy) \<and>
   (c = 3 \<longrightarrow> weatherCodeToSkyCondition (Some c) = overcast) \<and>
   (45 \<le> c \<and> c \<le> 48 \<longrightarrow> weatherCodeToSkyCondition (Some c) = fog) \<and>
   ((51 \<le> c \<and> c \<le> 67) \<or> (80 \<le> c \<and> c \<le> 82) \<longrightarrow>
      weatherCodeToSkyCondition (Some c) = rain) \<and>
   (71 \<le> c \<and> c \<le> 77 \<longrightarrow> weatherCodeToSkyCondition (Some c) = snow) \<and>
   (95 \<le> c \<longrightarrow> weatherCodeToSkyCondition (Some c) = thunder) \<and>
   ((1 < c \<and> c < 45 \<and> c \<noteq> 2 \<and> c \<noteq> 3) \<or> (48 < c \<and> c < 51) \<or> (67 < c \<and> c < 71) \<or>
    (77 < c \<and> c < 80) \<or> (82 < c \<and> c < 95) \<longrightarrow>
      weatherCodeToSkyCondition (Some c) = clear)"
  by (simp add: weatherCodeToSkyCondition_def)

theorem weatherCodeToSkyCondition_table_witness:
  "weatherCodeToSkyCondition (Some 0) = clear \<and>
   weatherCodeToSkyCondition (Some 2) = cloudy \<and>
   weatherCodeToSkyCondition (Some 3) = overcast \<and>
   weatherCodeToSkyCondition (Some 45) = fog \<and>
   weatherCodeToSkyCondition (Some 63) = rain \<and>
   weatherCodeToSkyCondition (Some 81) = rain \<and>
   weatherCodeToSkyCondition (Some 75) = snow \<and>
   weatherCodeToSkyCondition (Some 99) = thunder \<and>
   weatherCodeToSkyCondition (Some 10) = clear \<and>
   weatherCodeToSkyCondition (Some 90) = clear"
  using weatherCodeToSkyCondition_table [of 0] weatherCodeToSkyCondition_table [of 2]
    weatherCodeToSkyCondition_table [of 3] weatherCodeToSkyCondition_table [of 45]
    weatherCodeToSkyCondition_table [of 63] weatherCodeToSkyCondition_table [of 81]
    weatherCodeToSkyCondition_table [of 75] weatherCodeToSkyCondition_table [of 99]
    weatherCodeToSkyCondition_table [of 10] weatherCodeToSkyCondition_table [of 90]
  by simp


text \<open>
  C4. \<open>adjustConditionByCloudCover\<close> returns rain, snow, thunder and fog unchanged for
  every cloud cover (in particular rain at 90 stays rain); for clear, cloudy or overcast
  it returns overcast when the cover is at least 80, cloudy when it is at least 20 and
  below 80, and clear otherwise. Composed with the classifier in the component: weather
  code 3 with cloud cover 10 and no hovered point resolves to clear.
\<close>

theorem adjustConditionByCloudCover_rule:
  "(c = rain \<or> c = snow \<or> c = thunder \<or> c = fog \<longrightarrow>
      adjustConditionByCloudCover c cover = c) \<and>
   adjustConditionByCloudCover rain 90 = rain \<and>
   (c = clear \<or> c = cloudy \<or> c = overcast \<longrightarrow>
      (cover \<ge> 80 \<longrightarrow> adjustConditionByCloudCover c cover = overcast) \<and>
      (20 \<le> cover \<and> cover < 80 \<longrightarrow> adjustConditionByCloudCover c cover = cloudy) \<and>
      (cover < 20 \<longrightarrow> adjustConditionByCloudCover c cover = clear)) \<and>
   (SkyBackgroundProps.weatherCode props = Some 3 \<and>
    SkyBackgroundProps.cloudCover props = Some 10 \<and> hoveredPoint props = None \<longrightarrow>
      condition props = clear)"
proof -
  have "c = rain \<or> c = snow \<or> c = thunder \<or> c = fog \<longrightarrow>
      adjustConditionByCloudCover c cover = c"
    by (simp add: adjustConditionByCloudCover_def)
  moreover have "adjustConditionByCloudCover rain 90 = rain"
    by (simp add: adjustConditionByCloudCover_def)
  moreover have "c = clear \<or> c = cloudy \<or> c = overcast \<longrightarrow>
      (cover \<ge> 80 \<longrightarrow> adjustConditionByCloudCover c cover = overcast) \<and>
      (20 \<le> cover \<and> cover < 80 \<longrightarrow> adjustConditionByCloudCover c cover = cloudy) \<and>
      (cover < 20 \<longrightarrow> adjustConditionByCloudCover c cover = clear)"
    by (auto simp add: adjustConditionByCloudCover_def)
  moreover have "SkyBackgroundProps.weatherCode props = Some 3 \<and>
    SkyBackgroundProps.cloudCover props = Some 10 \<and> hoveredPoint props = None \<longrightarrow>
      condition props = clear"
    by (simp add: condition_def effectiveCode_def effectiveCloudCover_def nullish_def
        weatherCodeToSkyCondition_def adjustConditionByCloudCover_def)
  ultimately show ?thesis
    by blast
qed

theorem adjustConditionByCloudCover_rule_witness:
  "adjustConditionByCloudCover snow 100 = snow \<and>
   adjustConditionByCloudCover fog 0 = fog \<and>
   adjustConditionByCloudCover clear 85 = overcast \<and>
   adjustConditionByCloudCover overcast 50 = cloudy \<and>
   adjustConditionByCloudCover cloudy 5 = clear \<and>
   condition \<lparr>SkyBackgroundProps.weatherCode = Some 3, hoveredPoint = None,
     SkyBackgroundProps.precipitation = None, SkyBackgroundProps.cloudCover = Some 10,
     latitude = 35.6762\<rparr> = clear"
  using adjustConditionByCloudCover_rule [of snow 100]
    adjustConditionByCloudCover_rule [of fog 0]
    adjustConditionByCloudCover_rule [of clear 85]
    adjustConditionByCloudCover_rule [of overcast 50]
    adjustConditionByCloudCover_rule [of cloudy 5 "\<lparr>SkyBackgroundProps.weatherCode = Some 3,
      hoveredPoint = None, SkyBackgroundProps.precipitation = None,
      SkyBackgroundProps.cloudCover = Some 10, latitude = 35.6762\<rparr>"]
  by simp

section \<open>Effects\<close>

text \<open>
  C6. \<open>getRainSpeed\<close> has exactly three tiers: above 5 it returns the fastest pair
  (0.12s, 0.17s); above 2 and up to 5 the medium pair (0.25s, 0.35s); up to 2, zero
  included, the slowest pair (0.5s, 0.7s). The input 2 is in the slowest tier and the
  input 6 in the fastest.
\<close>

theorem getRainSpeed_tiers:
  "(p > 5 \<longrightarrow> getRainSpeed (Some p) = \<lparr>layer1 = ''0.12s'', layer2 = ''0.17s''\<rparr>) \<and>
   (2 < p \<and> p \<le> 5 \<longrightarrow> getRainSpeed (Some p) = \<lparr>layer1 = ''0.25s'', layer2 = ''0.35s''\<rparr>) \<and>
   (p \<le> 2 \<longrightarrow> getRainSpeed (Some p) = \<lparr>layer1 = ''0.5s'', layer2 = ''0.7s''\<rparr>) \<and>
   getRainSpeed (Some 0) = \<lparr>layer1 = ''0.5s'', layer2 = ''0.7s''\<rparr> \<and>
   getRainSpeed (Some 2) = \<lparr>layer1 = ''0.5s'', layer2 = ''0.7s''\<rparr> \<and>
   getRainSpeed (Some 6) = \<lparr>layer1 = ''0.12s'', layer2 = ''0.17s''\<rparr>"
  by (simp add: getRainSpeed_def)

theorem getRainSpeed_tiers_witness:
  "(5.5 :: real) > 5 \<and> getRainSpeed (Some 5.5) = \<lparr>layer1 = ''0.12s'', layer2 = ''0.17s''\<rparr> \<and>
   (2 :: real) < 5 \<and> getRainSpeed (Some 5) = \<lparr>layer1 = ''0.25s'', layer2 = ''0.35s''\<rparr> \<and>
   (1.5 :: real) \<le> 2 \<and> getRainSpeed (Some 1.5) = \<lparr>layer1 = ''0.5s'', layer2 = ''0.7s''\<rparr>"
  using getRainSpeed_tiers [of "5.5"] getRainSpeed_tiers [of 5] getRainSpeed_tiers [of "1.5"]
  by simp

text \<open>
  C7. The \<open>rainOpacity\<close> of \<open>getOverlayConfig\<close> is 0 when the precipitation is not strictly
  positive; when it is positive it is 0.35 for rain, 0.45 for thunder and 0 for every
  other condition; it does not depend on the sky phase. In particular it is 0 for rain
  with precipitation 0 and 0.35 for rain with precipitation 3, at any phase. The first
  copy of the function gives the same \<open>rainOpacity\<close>.
\<close>

theorem getOverlayConfig_rainOpacity:
  "(\<not> p > 0 \<longrightarrow> rainOpacity (getOverlayConfig c ph p) = 0) \<and>
   (p > 0 \<longrightarrow>
      rainOpacity (getOverlayConfig rain ph p) = 0.35 \<and>
      rainOpacity (getOverlayConfig thunder ph p) = 0.45 \<and>
      (c \<noteq> rain \<and> c \<noteq> thunder \<longrightarrow> rainOpacity (getOverlayConfig c ph p) = 0)) \<and>
   rainOpacity (getOverlayConfig c ph p) = rainOpacity (getOverlayConfig c ph' p) \<and>
   rainOpacity (getOverlayConfig rain ph 0) = 0 \<and>
   rainOpacity (getOverlayConfig rain ph 3) = 0.35 \<and>
   rainOpacity (getOverlayConfig_copy1 c ph p) = rainOpacity (getOverlayConfig c ph p)"
  by (simp add: getOverlayConfig_def getOverlayConfig_copy1_def Let_def)

theorem getOverlayConfig_rainOpacity_witness:
  "\<not> (0 :: real) > 0 \<and> rainOpacity (getOverlayConfig thunder 0.1 0) = 0 \<and>
   (3 :: real) > 0 \<and> rainOpacity (getOverlayConfig rain 0.1 3) = 0.35 \<and>
   rainOpacity (getOverlayConfig thunder 0.9 3) = 0.45 \<and>
   snow \<noteq> rain \<and> snow \<noteq> thunder \<and> rainOpacity (getOverlayConfig snow 0.33 3) = 0"
  using getOverlayConfig_rainOpacity [of 0 thunder "0.1" "0.1"]
    getOverlayConfig_rainOpacity [of 3 snow "0.1" "0.1"]
    getOverlayConfig_rainOpacity [of 3 snow "0.9" "0.9"]
    getOverlayConfig_rainOpacity [of 3 snow "0.33" "0.33"]
  by simp


section \<open>Input resolution of the component\<close>

text \<open>
  C8. The component resolves every effective input field by field, the hovered point
  overriding the live value whenever it is there: the weather code is the hovered one,
  else the live one; the hour is the hovered one, and without it the solar calculation
  uses the wall clock; the cloud cover is the hovered one, else the live one, else 0; the
  precipitation is the hovered one, else the live one. A hovered point with a missing
  field falls back to the live value of that field.
\<close>

theorem SkyBackground_effective_inputs:
  "(hoveredPoint props = Some hp \<longrightarrow>
      (HoveredPointInfo.weatherCode hp = Some v \<longrightarrow> effectiveCode props = Some v) \<and>
      (HoveredPointInfo.weatherCode hp = None \<longrightarrow>
         effectiveCode props = SkyBackgroundProps.weatherCode props) \<and>
      (hour hp = Some v \<longrightarrow> hourFloat props now = v) \<and>
      (hour hp = None \<longrightarrow>
         hourFloat props now = real (getHours now) + real (getMinutes now) / 60) \<and>
      (HoveredPointInfo.cloudCover hp = Some v \<longrightarrow> effectiveCloudCover props = v) \<and>
      (HoveredPointInfo.cloudCover hp = None \<and> SkyBackgroundProps.cloudCover props = Some w \<longrightarrow>
         effectiveCloudCover props = w) \<and>
      (HoveredPointInfo.cloudCover hp = None \<and> SkyBackgroundProps.cloudCover props = None \<longrightarrow>
         effectiveCloudCover props = 0) \<and>
      (HoveredPointInfo.precipitation hp = Some v \<longrightarrow> effectivePrecipitation props = Some v) \<and>
      (HoveredPointInfo.precipitation hp = None \<longrightarrow>
         effectivePrecipitation props = SkyBackgroundProps.precipitation props)) \<and>
   (hoveredPoint props = None \<longrightarrow>
      effectiveCode props = SkyBackgroundProps.weatherCode props \<and>
      hourFloat props now = real (getHours now) + real (getMinutes now) / 60 \<and>
      (SkyBackgroundProps.cloudCover props = Some w \<longrightarrow> effectiveCloudCover props = w) \<and>
      (SkyBackgroundProps.cloudCover props = None \<longrightarrow> effectiveCloudCover props = 0) \<and>
      effectivePrecipitation props = SkyBackgroundProps.precipitation props)"
  by (simp add: effectiveCode_def effectiveHour_def hourFloat_def effectiveCloudCover_def
      effectivePrecipitation_def nullish_def)

text \<open>
  Three runs: a hovered point with every field, a hovered point with only code and hour
  (the other fields come from the live values), and no hovered point at 14:30.
\<close>

theorem SkyBackground_effective_inputs_witness:
  "(let hp = \<lparr>HoveredPointInfo.weatherCode = Some 61, hour = Some 22,
               HoveredPointInfo.precipitation = Some 4, HoveredPointInfo.cloudCover = Some 95\<rparr>;
        props = \<lparr>SkyBackgroundProps.weatherCode = Some 0, hoveredPoint = Some hp,
                  SkyBackgroundProps.precipitation = Some 1,
                  SkyBackgroundProps.cloudCover = Some 30, latitude = 35.6762\<rparr>;
        now = \<lparr>getHours = 14, getMinutes = 30\<rparr>
    in effectiveCode props = Some 61 \<and> hourFloat props now = 22 \<and>
       effectiveCloudCover props = 95 \<and> effectivePrecipitation props = Some 4) \<and>
   (let hp = \<lparr>HoveredPointInfo.weatherCode = None, hour = None,
               HoveredPointInfo.precipitation = None, HoveredPointInfo.cloudCover = None\<rparr>;
        props = \<lparr>SkyBackgroundProps.weatherCode = Some 2, hoveredPoint = Some hp,
                  SkyBackgroundProps.precipitation = Some 1,
                  SkyBackgroundProps.cloudCover = Some 30, latitude = 35.6762\<rparr>;
        now = \<lparr>getHours = 14, getMinutes = 30\<rparr>
    in effectiveCode props = Some 2 \<and> hourFloat props now = 14.5 \<and>
       effectiveCloudCover props = 30 \<and> effectivePrecipitation props = Some 1) \<and>
   (let props = \<lparr>SkyBackgroundProps.weatherCode = Some 3, hoveredPoint = None,
                  SkyBackgroundProps.precipitation = None,
                  SkyBackgroundProps.cloudCover = None, latitude = 35.6762\<rparr>;
        now = \<lparr>getHours = 14, getMinutes = 30\<rparr>
    in effectiveCode props = Some 3 \<and> hourFloat props now = 14.5 \<and>
       effectiveCloudCover props = 0 \<and> effectivePrecipitation props = None)"
  using
    SkyBackground_effective_inputs
      [of "\<lparr>SkyBackgroundProps.weatherCode = Some 0,
             hoveredPoint = Some \<lparr>HoveredPointInfo.weatherCode = Some 61, hour = Some 22,
               HoveredPointInfo.precipitation = Some 4, HoveredPointInfo.cloudCover = Some 95\<rparr>,
             SkyBackgroundProps.precipitation = Some 1,
             SkyBackgroundProps.cloudCover = Some 30, latitude = 35.6762\<rparr>"
          "\<lparr>HoveredPointInfo.weatherCode = Some 61, hour = Some 22,
             HoveredPointInfo.precipitation = Some 4, HoveredPointInfo.cloudCover = Some 95\<rparr>"
          61 "\<lparr>getHours = 14, getMinutes = 30\<rparr>" 30]
    SkyBackground_effective_inputs
      [of "\<lparr>SkyBackgroundProps.weatherCode = Some 0,
             hoveredPoint = Some \<lparr>HoveredPointInfo.weatherCode = Some 61, hour = Some 22,
               HoveredPointInfo.precipitation = Some 4, HoveredPointInfo.cloudCover = Some 95\<rparr>,
             SkyBackgroundProps.precipitation = Some 1,
             SkyBackgroundProps.cloudCover = Some 30, latitude = 35.6762\<rparr>"
          "\<lparr>HoveredPointInfo.weatherCode = Some 61, hour = Some 22,
             HoveredPointInfo.precipitation = Some 4, HoveredPointInfo.cloudCover = Some 95\<rparr>"
          22 "\<lparr>getHours = 14, getMinutes = 30\<rparr>" 30]
    SkyBackground_effective_inputs
      [of "\<lparr>SkyBackgroundProps.weatherCode = Some 0,
             hoveredPoint = Some \<lparr>HoveredPointInfo.weatherCode = Some 61, hour = Some 22,
               HoveredPointInfo.precipitation = Some 4, HoveredPointInfo.cloudCover = Some 95\<rparr>,
             SkyBackgroundProps.precipitation = Some 1,
             SkyBackgroundProps.cloudCover = Some 30, latitude = 35.6762\<rparr>"
          "\<lparr>HoveredPointInfo.weatherCode = Some 61, hour = Some 22,
             HoveredPointInfo.precipitation = Some 4, HoveredPointInfo.cloudCover = Some 95\<rparr>"
          95 "\<lparr>getHours = 14, getMinutes = 30\<rparr>" 30]
    SkyBackground_effective_inputs
      [of "\<lparr>SkyBackgroundProps.weatherCode = Some 0,
             hoveredPoint = Some \<lparr>HoveredPointInfo.weatherCode = Some 61, hour = Some 22,
               HoveredPointInfo.precipitation = Some 4, HoveredPointInfo.cloudCover = Some 95\<rparr>,
             SkyBackgroundProps.precipitation = Some 1,
             SkyBackgroundProps.cloudCover = Some 30, latitude = 35.6762\<rparr>"
          "\<lparr>HoveredPointInfo.weatherCode = Some 61, hour = Some 22,
             HoveredPointInfo.precipitation = Some 4, HoveredPointInfo.cloudCover = Some 95\<rparr>"
          4 "\<lparr>getHours = 14, getMinutes = 30\<rparr>" 30]
    SkyBackground_effective_inputs
      [of "\<lparr>SkyBackgroundProps.weatherCode = Some 2,
             hoveredPoint = Some \<lparr>HoveredPointInfo.weatherCode = None, hour = None,
               HoveredPointInfo.precipitation = None, HoveredPointInfo.cloudCover = None\<rparr>,
             SkyBackgroundProps.precipitation = Some 1,
             SkyBackgroundProps.cloudCover = Some 30, latitude = 35.6762\<rparr>"
          "\<lparr>HoveredPointInfo.weatherCode = None, hour = None,
             HoveredPointInfo.precipitation = None, HoveredPointInfo.cloudCover = None\<rparr>"
          0 "\<lparr>getHours = 14, getMinutes = 30\<rparr>" 30]
    SkyBackground_effective_inputs
      [of "\<lparr>SkyBackgroundProps.weatherCode = Some 3, hoveredPoint = None,
             SkyBackgroundProps.precipitation = None,
             SkyBackgroundProps.cloudCover = None, latitude = 35.6762\<rparr>"
          "\<lparr>HoveredPointInfo.weatherCode = None, hour = None,
             HoveredPointInfo.precipitation = None, HoveredPointInfo.cloudCover = None\<rparr>"
          0 "\<lparr>getHours = 14, getMinutes = 30\<rparr>" 0]
  by (simp add: Let_def)


section \<open>The keyframe tables\<close>

lemma CONDITION_PALETTES_invariant: "paletteInvariant (CONDITION_PALETTES c)"
  by (induct c) (simp_all add: paletteInvariant_def CONDITION_PALETTES_def)

lemma CONDITION_PALETTES_copy1_invariant: "paletteInvariant (CONDITION_PALETTES_copy1 c)"
  by (induct c) (simp_all add: paletteInvariant_def CONDITION_PALETTES_copy1_def)

text \<open>
  C9. For each of the 7 sky conditions the keyframe table satisfies the palette
  invariant: the keyframes are ordered strictly ascending by phase, every phase lies in
  [0, 1], the first keyframe has phase 0 and the last has phase 1. Both copies of the
  table satisfy it.
\<close>

theorem CONDITION_PALETTES_keyframes_ordered:
  "paletteInvariant (CONDITION_PALETTES c) \<and> paletteInvariant (CONDITION_PALETTES_copy1 c)"
  using CONDITION_PALETTES_invariant CONDITION_PALETTES_copy1_invariant by simp

text \<open>Every colour of both tables is a lower-case \<open>#rrggbb\<close> string.\<close>

lemma CONDITION_PALETTES_canonical: "list_all canonicalEntry (CONDITION_PALETTES c)"
  by (induct c) code_simp+

lemma CONDITION_PALETTES_copy1_canonical:
  "list_all canonicalEntry (CONDITION_PALETTES_copy1 c)"
  by (induct c) code_simp+

section \<open>Interpolation at the ends of the phase range\<close>

lemma Math_round_of_int: "Math_round (real_of_int x) = x"
  by (simp add: Math_round_def)

lemma lerpChannel_0: "lerpChannel (Some x) (Some y) 0 = Some x"
  by (simp add: lerpChannel_def Math_round_of_int)

lemma lerpChannel_1: "lerpChannel (Some x) (Some y) 1 = Some y"
  by (simp add: lerpChannel_def Math_round_of_int)

lemma canonicalColorE:
  assumes "canonicalColor c"
  obtains r g b where "parseHex c = (Some r, Some g, Some b)"
    and "toHex (Some r) (Some g) (Some b) = c"
proof -
  obtain x y z where p: "parseHex c = (x, y, z)"
    by (cases "parseHex c") auto
  from assms p obtain r g b where "x = Some r" "y = Some g" "z = Some b"
    by (cases x; cases y; cases z) (simp_all add: canonicalColor_def)
  with assms p that show thesis
    by (simp add: canonicalColor_def)
qed

lemma lerpColor_0:
  assumes "canonicalColor a" and "canonicalColor b"
  shows "lerpColor a b 0 = a"
proof -
  from assms(1) obtain r g bl where a: "parseHex a = (Some r, Some g, Some bl)"
    and rt: "toHex (Some r) (Some g) (Some bl) = a"
    by (rule canonicalColorE)
  from assms(2) obtain r' g' bl' where b: "parseHex b = (Some r', Some g', Some bl')"
    by (rule canonicalColorE)
  show ?thesis
    by (simp add: lerpColor_def a b lerpChannel_0 rt)
qed

lemma lerpColor_1:
  assumes "canonicalColor a" and "canonicalColor b"
  shows "lerpColor a b 1 = b"
proof -
  from assms(1) obtain r g bl where a: "parseHex a = (Some r, Some g, Some bl)"
    by (rule canonicalColorE)
  from assms(2) obtain r' g' bl' where b: "parseHex b = (Some r', Some g', Some bl')"
    and rt: "toHex (Some r') (Some g') (Some bl') = b"
    by (rule canonicalColorE)
  show ?thesis
    by (simp add: lerpColor_def a b lerpChannel_1 rt)
qed

text \<open>Between the keyframes the channels are interpolated and rounded; NaN shows.\<close>

lemma lerpColor_examples:
  "lerpColor ''#0a1040'' ''#1a1a50'' 0.5 = ''#121548''"
  "lerpColor ''#zz1040'' ''#1a1a50'' 0.5 = ''#NaN1548''"
  by code_simp+

lemma lerpPalette_0:
  assumes "canonicalEntry lo" and "canonicalEntry up"
    and "colors lo = (l0, l1, l2, l3)" and "colors up = (u0, u1, u2, u3)"
  shows "(lerpColor l0 u0 0, lerpColor l1 u1 0, lerpColor l2 u2 0, lerpColor l3 u3 0) = colors lo"
  using assms by (simp add: canonicalEntry_def lerpColor_0)

lemma lerpPalette_1:
  assumes "canonicalEntry lo" and "canonicalEntry up"
    and "colors lo = (l0, l1, l2, l3)" and "colors up = (u0, u1, u2, u3)"
  shows "(lerpColor l0 u0 1, lerpColor l1 u1 1, lerpColor l2 u2 1, lerpColor l3 u3 1) = colors up"
  using assms by (simp add: canonicalEntry_def lerpColor_1)

text \<open>What \<open>gradientOfPalettes\<close> returns once the loop has found the pair \<open>(lo, up)\<close>.\<close>

lemma gradientOfPalettes_bracket:
  assumes "findBracket ps (max 0 (min 1 x)) = Some (lo, up)"
    and "colors lo = (l0, l1, l2, l3)" and "colors up = (u0, u1, u2, u3)"
    and "t = (if phase up - phase lo > 0 then (max 0 (min 1 x) - phase lo) / (phase up - phase lo) else 0)"
  shows "gradientOfPalettes ps x =
    Inr (gradientString (lerpColor l0 u0 t, lerpColor l1 u1 t, lerpColor l2 u2 t, lerpColor l3 u3 t))"
proof -
  have "ps \<noteq> []" using assms(1) by auto
  then show ?thesis
    using assms by (simp add: gradientOfPalettes_def Let_def)
qed

lemma findBracket_at_0:
  assumes "paletteInvariant ps"
  obtains a b rest where "ps = a # b # rest" and "findBracket ps 0 = Some (a, b)"
    and "phase a = 0" and "0 < phase b"
proof -
  from assms have ne: "ps \<noteq> []" and srt: "sorted_wrt (<) (map phase ps)"
    and first: "phase (hd ps) = 0" and lst: "phase (last ps) = 1"
    by (simp_all add: paletteInvariant_def)
  from ne obtain a tl where ps: "ps = a # tl" by (cases ps) auto
  have "tl \<noteq> []" using first lst ps by auto
  then obtain b rest where tl: "tl = b # rest" by (cases tl) auto
  have pa: "phase a = 0" using first ps by simp
  have pb: "0 < phase b" using srt ps tl pa by simp
  have "findBracket ps 0 = Some (a, b)" using ps tl pa pb by simp
  then show ?thesis using that ps tl pa pb by blast
qed

lemma findBracket_at_1:
  assumes "sorted_wrt (<) (map phase ps)" and "2 \<le> length ps" and "phase (last ps) = 1"
  shows "\<exists>lo. lo \<in> set ps \<and> phase lo < 1 \<and> findBracket ps 1 = Some (lo, last ps)"
  using assms
proof (induction ps "1::real" rule: findBracket.induct)
  case (1 a b rest)
  have ab: "phase a < phase b"
    using "1.prems"(1) by simp
  show ?case
  proof (cases rest)
    case Nil
    have "phase b = 1" using "1.prems"(3) Nil by simp
    then have "phase a < 1" and "findBracket (a # b # rest) 1 = Some (a, b)"
      using ab by simp_all
    then show ?thesis using Nil by simp
  next
    case (Cons r rs)
    have srt: "sorted_wrt (<) (map phase (b # rest))"
      using "1.prems"(1) by simp
    have lst: "last (a # b # rest) = last rest" and lst': "last (b # rest) = last rest"
      using Cons by simp_all
    have "last rest \<in> set rest"
      using Cons by (simp only: last_in_set list.distinct not_False_eq_True)
    moreover have "\<forall>e\<in>set rest. phase b < phase e"
      using srt by simp
    ultimately have "phase b < phase (last rest)"
      by blast
    then have nb: "\<not> 1 \<le> phase b"
      using "1.prems"(3) lst by simp
    then have nobr: "\<not> (phase a \<le> 1 \<and> 1 \<le> phase b)"
      by simp
    have len: "2 \<le> length (b # rest)"
      using Cons by simp
    have one: "phase (last (b # rest)) = 1"
      using "1.prems"(3) lst lst' by simp
    from "1.hyps" [OF nobr srt len one]
    obtain lo where lo: "lo \<in> set (b # rest)" "phase lo < 1"
      "findBracket (b # rest) 1 = Some (lo, last (b # rest))"
      by blast
    have "findBracket (a # b # rest) 1 = Some (lo, last (a # b # rest))"
      using nb lo(3) lst lst' by simp
    then show ?thesis using lo(1,2) by auto
  qed
qed simp_all

lemma paletteInvariant_length:
  assumes "paletteInvariant ps"
  shows "2 \<le> length ps"
proof -
  from assms have ne: "ps \<noteq> []" and first: "phase (hd ps) = 0" and lst: "phase (last ps) = 1"
    by (simp_all add: paletteInvariant_def)
  from ne obtain a tl where ps: "ps = a # tl" by (cases ps) auto
  have "tl \<noteq> []" using first lst ps by auto
  then show ?thesis using ps by (cases tl) simp_all
qed

lemma gradientOfPalettes_at_0:
  assumes inv: "paletteInvariant ps" and can: "list_all canonicalEntry ps"
  shows "gradientOfPalettes ps 0 = Inr (gradientString (colors (hd ps)))"
proof -
  from inv obtain a b rest where ps: "ps = a # b # rest"
    and fb: "findBracket ps 0 = Some (a, b)" and pa: "phase a = 0" and pb: "0 < phase b"
    by (rule findBracket_at_0)
  obtain l0 l1 l2 l3 where cl: "colors a = (l0, l1, l2, l3)"
    by (cases "colors a") auto
  obtain u0 u1 u2 u3 where cu: "colors b = (u0, u1, u2, u3)"
    by (cases "colors b") auto
  have ca: "canonicalEntry a" and cb: "canonicalEntry b"
    using can ps by simp_all
  have fb': "findBracket ps (max 0 (min 1 0)) = Some (a, b)"
    using fb by simp
  have t: "(0::real) =
    (if phase b - phase a > 0 then (max 0 (min 1 0) - phase a) / (phase b - phase a) else 0)"
    using pa by simp
  have "gradientOfPalettes ps 0 =
    Inr (gradientString (lerpColor l0 u0 0, lerpColor l1 u1 0, lerpColor l2 u2 0, lerpColor l3 u3 0))"
    using fb' cl cu t by (rule gradientOfPalettes_bracket)
  also have "(lerpColor l0 u0 0, lerpColor l1 u1 0, lerpColor l2 u2 0, lerpColor l3 u3 0) = colors a"
    using ca cb cl cu by (rule lerpPalette_0)
  finally show ?thesis using ps by simp
qed

lemma gradientOfPalettes_at_1:
  assumes inv: "paletteInvariant ps" and can: "list_all canonicalEntry ps"
  shows "gradientOfPalettes ps 1 = Inr (gradientString (colors (last ps)))"
proof -
  from inv have ne: "ps \<noteq> []" and srt: "sorted_wrt (<) (map phase ps)"
    and lst: "phase (last ps) = 1"
    by (simp_all add: paletteInvariant_def)
  have len: "2 \<le> length ps"
    using inv by (rule paletteInvariant_length)
  from findBracket_at_1 [OF srt len lst]
  obtain lo where lo: "lo \<in> set ps" and plo: "phase lo < 1"
    and fb: "findBracket ps 1 = Some (lo, last ps)"
    by blast
  obtain l0 l1 l2 l3 where cl: "colors lo = (l0, l1, l2, l3)"
    by (cases "colors lo") auto
  obtain u0 u1 u2 u3 where cu: "colors (last ps) = (u0, u1, u2, u3)"
    by (cases "colors (last ps)") auto
  have ca: "canonicalEntry lo"
    using can lo by (simp add: list_all_iff)
  have cb: "canonicalEntry (last ps)"
    using can ne by (simp add: list_all_iff)
  have fb': "findBracket ps (max 0 (min 1 1)) = Some (lo, last ps)"
    using fb by simp
  have t: "(1::real) =
    (if phase (last ps) - phase lo > 0
     then (max 0 (min 1 1) - phase lo) / (phase (last ps) - phase lo) else 0)"
    using plo lst by simp
  have "gradientOfPalettes ps 1 =
    Inr (gradientString (lerpColor l0 u0 1, lerpColor l1 u1 1, lerpColor l2 u2 1, lerpColor l3 u3 1))"
    using fb' cl cu t by (rule gradientOfPalettes_bracket)
  also have "(lerpColor l0 u0 1, lerpColor l1 u1 1, lerpColor l2 u2 1, lerpColor l3 u3 1) =
    colors (last ps)"
    using ca cb cl cu by (rule lerpPalette_1)
  finally show ?thesis .
qed

text \<open>
  C5. For each of the 7 sky conditions, \<open>getSkyGradientByPhase\<close> at phase 0 yields exactly
  the four colours of the first keyframe of the condition, and at phase 1 exactly the
  four colours of the last keyframe, at the fixed stops of the gradient. The same holds
  for the first copy of the table.
\<close>

theorem getSkyGradientByPhase_boundaries:
  "getSkyGradientByPhase c 0 = Inr (gradientString (colors (hd (CONDITION_PALETTES c)))) \<and>
   getSkyGradientByPhase c 1 = Inr (gradientString (colors (last (CONDITION_PALETTES c)))) \<and>
   getSkyGradientByPhase_copy1 c 0 =
     Inr (gradientString (colors (hd (CONDITION_PALETTES_copy1 c)))) \<and>
   getSkyGradientByPhase_copy1 c 1 =
     Inr (gradientString (colors (last (CONDITION_PALETTES_copy1 c))))"
  unfolding getSkyGradientByPhase_def getSkyGradientByPhase_copy1_def
  using gradientOfPalettes_at_0 [OF CONDITION_PALETTES_invariant CONDITION_PALETTES_canonical]
    gradientOfPalettes_at_1 [OF CONDITION_PALETTES_invariant CONDITION_PALETTES_canonical]
    gradientOfPalettes_at_0
      [OF CONDITION_PALETTES_copy1_invariant CONDITION_PALETTES_copy1_canonical]
    gradientOfPalettes_at_1
      [OF CONDITION_PALETTES_copy1_invariant CONDITION_PALETTES_copy1_canonical]
  by simp

text \<open>The clear sky of the table in the dead of night and at full day, written out.\<close>

theorem getSkyGradientByPhase_boundaries_witness:
  "getSkyGradientByPhase clear 0 =
     Inr ''linear-gradient(180deg, #050820 0%, #10083a 30%, #080e38 65%, #050a22 100%)'' \<and>
   getSkyGradientByPhase clear 1 =
     Inr ''linear-gradient(180deg, #1a6dd4 0%, #3a8ee8 30%, #6ab4f7 65%, #d4edff 100%)''"
  using getSkyGradientByPhase_boundaries [of clear]
  by (simp add: CONDITION_PALETTES_def gradientString_def)

end
